theory Spec2Isabelle
  imports Complex_Main "HOL-Library.Word"
begin

section \<open>Conventions of the embedding\<close>

text \<open>
  The two controllers of the repository are embedded shallowly.  The members of the fusion
  node hold finite numbers: there a C++ \<^verbatim>\<open>double\<close> is idealised as a \<^typ>\<open>real\<close> (no
  rounding) and a \<^verbatim>\<open>std::vector<double>\<close> is a \<^typ>\<open>real list\<close>.  The limit check and the
  torque loop, whose inputs (a joint vector handed to the check, the configured gains, the
  sensor readings) can be any \<^verbatim>\<open>double\<close>, work on the type \<open>double\<close> below, which has the
  special values.  The checked access \<^verbatim>\<open>v.at(i)\<close> throws \<^verbatim>\<open>std::out_of_range\<close> when
  \<^verbatim>\<open>i >= v.size()\<close>; every such throw is a branch of the model.  Text written to
  \<^verbatim>\<open>std::cout\<close> and to the ROS logger is not modelled.
\<close>

datatype error = out_of_range | assertion_failed | undefined_behaviour

text \<open>
  How a statement ends: it runs to its end, or it is left early (by an exception, a failed
  \<^verbatim>\<open>assert\<close>, or an unchecked access out of range).
\<close>

datatype outcome = Returned | Thrown error

text \<open>\<^verbatim>\<open>v.at(i)\<close> as an rvalue.\<close>

definition at_read :: "'a list \<Rightarrow> nat \<Rightarrow> error + 'a" where
  "at_read v i = (if i < length v then Inr (v ! i) else Inl out_of_range)"

text \<open>
  Statements transform a state and may throw; \<open>seq f g\<close> is \<^verbatim>\<open>f; g\<close>: when \<open>f\<close> throws,
  \<open>g\<close> does not run and the state is the one \<open>f\<close> left behind.
\<close>

definition seq :: "('s \<Rightarrow> outcome \<times> 's) \<Rightarrow> ('s \<Rightarrow> outcome \<times> 's) \<Rightarrow> 's \<Rightarrow> outcome \<times> 's" where
  "seq f g s = (case f s of (Returned, s') \<Rightarrow> g s' | (Thrown e, s') \<Rightarrow> (Thrown e, s'))"

section \<open>Doubles with their special values\<close>

text \<open>
  A \<^verbatim>\<open>double\<close> is not-a-number, one of the two infinities, or a finite value.  Finite
  arithmetic is idealised as exact (no rounding, no overflow); the special values follow
  IEEE 754: every comparison with NaN is false, NaN propagates through arithmetic, and
  \<open>\<infinity> - \<infinity>\<close> and \<open>0 * \<infinity>\<close> are NaN.
\<close>

datatype double = NaN | MInf | Fin real | PInf

text \<open>\<^verbatim>\<open>a < b\<close>\<close>

fun dless :: "double \<Rightarrow> double \<Rightarrow> bool" where
  "dless NaN b = False"
| "dless a NaN = False"
| "dless MInf MInf = False"
| "dless MInf b = True"
| "dless (Fin a) MInf = False"
| "dless (Fin a) (Fin b) = (a < b)"
| "dless (Fin a) PInf = True"
| "dless PInf b = False"

text \<open>\<^verbatim>\<open>a > b\<close>\<close>

definition dgreater :: "double \<Rightarrow> double \<Rightarrow> bool" where
  "dgreater a b = dless b a"

text \<open>\<^verbatim>\<open>a <= b\<close>\<close>

fun dle :: "double \<Rightarrow> double \<Rightarrow> bool" where
  "dle NaN b = False"
| "dle a NaN = False"
| "dle MInf b = True"
| "dle (Fin a) MInf = False"
| "dle (Fin a) (Fin b) = (a \<le> b)"
| "dle (Fin a) PInf = True"
| "dle PInf PInf = True"
| "dle PInf b = False"

text \<open>\<^verbatim>\<open>-a\<close>, \<^verbatim>\<open>a + b\<close>, \<^verbatim>\<open>a - b\<close> and \<^verbatim>\<open>a * b\<close>\<close>

fun dneg :: "double \<Rightarrow> double" where
  "dneg NaN = NaN"
| "dneg MInf = PInf"
| "dneg (Fin a) = Fin (- a)"
| "dneg PInf = MInf"

fun dadd :: "double \<Rightarrow> double \<Rightarrow> double" where
  "dadd NaN b = NaN"
| "dadd a NaN = NaN"
| "dadd (Fin a) (Fin b) = Fin (a + b)"
| "dadd PInf MInf = NaN"
| "dadd MInf PInf = NaN"
| "dadd PInf b = PInf"
| "dadd MInf b = MInf"
| "dadd (Fin a) b = b"

definition dsub :: "double \<Rightarrow> double \<Rightarrow> double" where
  "dsub a b = dadd a (dneg b)"

fun dmul :: "double \<Rightarrow> double \<Rightarrow> double" where
  "dmul NaN b = NaN"
| "dmul a NaN = NaN"
| "dmul (Fin a) (Fin b) = Fin (a * b)"
| "dmul (Fin a) PInf = (if a = 0 then NaN else if 0 < a then PInf else MInf)"
| "dmul (Fin a) MInf = (if a = 0 then NaN else if 0 < a then MInf else PInf)"
| "dmul PInf (Fin b) = (if b = 0 then NaN else if 0 < b then PInf else MInf)"
| "dmul MInf (Fin b) = (if b = 0 then NaN else if 0 < b then MInf else PInf)"
| "dmul PInf PInf = PInf"
| "dmul MInf MInf = PInf"
| "dmul PInf MInf = MInf"
| "dmul MInf PInf = MInf"

section \<open>real\_controller.cpp: global constants\<close>

definition n_joints :: nat where
  "n_joints = 7"

definition lower_joint_limits :: "double list" where
  "lower_joint_limits =
     map Fin [-2.8973, -1.7628, -2.8973, -3.0718, -2.8973, -0.0175, -2.8973]"

definition upper_joint_limits :: "double list" where
  "upper_joint_limits =
     map Fin [2.8973, 1.7628, 2.8973, -0.0698, 2.8973, 3.7525, 2.8973]"

section \<open>get\_robot\_control\<close>

text \<open>
  \<^verbatim>\<open>for (unsigned int i=0; i<n_joints; i++) vals.at(i) = t;\<close>
  The vector is passed by reference: the entries written before a throw stay written.
\<close>

function get_robot_control_loop :: "nat \<Rightarrow> real \<Rightarrow> real list \<Rightarrow> outcome \<times> real list" where
  "get_robot_control_loop i t vals =
     (if i < n_joints then
        (if i < length vals then get_robot_control_loop (i + 1) t (vals[i := t])
         else (Thrown out_of_range, vals))
      else (Returned, vals))"
  by pat_completeness auto
termination
  by (relation "measure (\<lambda>(i, t, vals). n_joints - i)") auto

declare get_robot_control_loop.simps [simp del]

definition get_robot_control :: "real \<Rightarrow> real list \<Rightarrow> outcome \<times> real list" where
  "get_robot_control t vals = get_robot_control_loop 0 t vals"

section \<open>within\_limits\<close>

text \<open>
  \<^verbatim>\<open>for (i < n_joints) if (vals.at(i) > upper.at(i) || vals.at(i) < lower.at(i)) return false;\<close>
  \<^verbatim>\<open>return true;\<close>
\<close>

function within_limits_loop :: "nat \<Rightarrow> double list \<Rightarrow> error + bool" where
  "within_limits_loop i vals =
     (if i < n_joints then
        (case at_read vals i of
           Inl e \<Rightarrow> Inl e
         | Inr v \<Rightarrow>
             (case at_read upper_joint_limits i of
                Inl e \<Rightarrow> Inl e
              | Inr u \<Rightarrow>
                  if dgreater v u then Inr False
                  else
                    (case at_read lower_joint_limits i of
                       Inl e \<Rightarrow> Inl e
                     | Inr l \<Rightarrow>
                         if dless v l then Inr False
                         else within_limits_loop (i + 1) vals)))
      else Inr True)"
  by pat_completeness auto
termination
  by (relation "measure (\<lambda>(i, vals). n_joints - i)") auto

declare within_limits_loop.simps [simp del]

definition within_limits :: "double list \<Rightarrow> error + bool" where
  "within_limits vals = within_limits_loop 0 vals"

section \<open>Messages and calls into the ROS client library\<close>

text \<open>
  \<^verbatim>\<open>trajectory_msgs::msg::JointTrajectoryPoint\<close>, reduced to the fields the node writes.
  \<^verbatim>\<open>time_from_start\<close> is a \<^verbatim>\<open>builtin_interfaces::msg::Duration\<close>: \<^verbatim>\<open>int32 sec\<close> (left at its
  default 0) and \<^verbatim>\<open>uint32 nanosec\<close>.
\<close>

record JointTrajectoryPoint =
  positions :: "real list"
  time_from_start_sec :: "32 word"
  time_from_start_nanosec :: "32 word"

record JointTrajectory =
  joint_names :: "string list"
  points :: "JointTrajectoryPoint list"

text \<open>
  \<^verbatim>\<open>tutorial_interfaces::msg::Falconpos\<close>, with its fields \<^verbatim>\<open>x\<close>, \<^verbatim>\<open>y\<close>, \<^verbatim>\<open>z\<close> (floating point, as
  the node assigns \<^verbatim>\<open>double\<close>s to them); they are prefixed here to keep \<open>x\<close>, \<open>y\<close>, \<open>z\<close> free
  as variable names.
\<close>

record Falconpos =
  falcon_x :: real
  falcon_y :: real
  falcon_z :: real

text \<open>
  The node acts on the outside world only through calls into rclcpp.  The model records
  them, in order; what the library does with a call is not part of the repository.
\<close>

datatype ros_call =
    shutdown
  | publish_trajectory JointTrajectory
  | publish_tcp_pos Falconpos

section \<open>The kinematics library\<close>

text \<open>
  The KDL solvers are built from the global \<^verbatim>\<open>panda_chain\<close>, which is fixed once the node
  is constructed.  They are parameters of the model: \<open>JntToCart q\<close> is the rotation part
  \<^verbatim>\<open>M\<close> of the frame that \<^verbatim>\<open>fk_solver.JntToCart(q, frame)\<close> writes; \<open>CartToJnt q_init goal i\<close>
  is coefficient \<open>i\<close> of the array that \<^verbatim>\<open>ik_solver.CartToJnt(q_init, goal, q_out)\<close> writes
  into \<^verbatim>\<open>q_out\<close>.  A \<^verbatim>\<open>KDL::Frame\<close> built from a rotation and a vector is the pair of the two.
\<close>

type_synonym 'r Frame = "'r \<times> (real \<times> real \<times> real)"

record 'r kdl =
  JntToCart :: "real list \<Rightarrow> 'r"
  CartToJnt :: "real list \<Rightarrow> 'r Frame \<Rightarrow> nat \<Rightarrow> real"

section \<open>The state of the node\<close>

text \<open>
  The mutable members of \<^verbatim>\<open>RealController\<close>, the mutable globals \<^verbatim>\<open>tcp_pos\<close>,
  \<^verbatim>\<open>orientation\<close> and \<^verbatim>\<open>got_orientation\<close>, and the calls made into rclcpp so far.
\<close>

record 'r RealController =
  origin :: "real list"
  human_offset :: "real list"
  robot_offset :: "real list"
  curr_joint_vals :: "real list"
  ik_joint_vals :: "real list"
  message_joint_vals :: "real list"
  control :: bool
  count :: int
  w :: real
  ax :: real
  ay :: real
  az :: real
  tcp_pos :: "real list"
  orientation :: 'r
  got_orientation :: bool
  ros_calls :: "ros_call list"

text \<open>The \<^verbatim>\<open>const\<close> members.\<close>

definition mapping_ratio :: real where
  "mapping_ratio = 1.5"

definition control_freq :: int where
  "control_freq = 20"

definition latency :: real where
  "latency = 2.0"

definition max_count :: int where
  "max_count = control_freq * 10"

text \<open>
  The members as their initialisers leave them.  The rotation \<open>r0\<close> stands for the
  default-constructed \<^verbatim>\<open>KDL::Rotation\<close>.
\<close>

definition initial :: "'r \<Rightarrow> 'r RealController" where
  "initial r0 =
     \<lparr> origin = [0.4559, 0.0, 0.3346],
       human_offset = [0.0, 0.0, 0.0],
       robot_offset = [0.0, 0.0, 0.0],
       curr_joint_vals = [0.0, 0.0, 0.0, 0.0, 0.0, 0.0, 0.0],
       ik_joint_vals = [0.0, 0.0, 0.0, 0.0, 0.0, 0.0, 0.0],
       message_joint_vals = [0.0, 0.0, 0.0, 0.0, 0.0, 0.0, 0.0],
       control = False,
       count = 0,
       w = 0.0,
       ax = 1.0, ay = 1.0, az = 1.0,
       tcp_pos = [0.3069, 0.0, 0.4853],
       orientation = r0,
       got_orientation = False,
       ros_calls = [] \<rparr>"

section \<open>compute\_ik\<close>

text \<open>
  \<^verbatim>\<open>for (i < n_joints) jnt_pos_start(i) = curr_vals.at(i);\<close>
  The array \<^verbatim>\<open>jnt_pos_start\<close> has \<^verbatim>\<open>n_joints\<close> rows; the loop fills it from the front or throws.
\<close>

function jnt_pos_start_loop :: "nat \<Rightarrow> real list \<Rightarrow> real list \<Rightarrow> error + real list" where
  "jnt_pos_start_loop i curr_vals jnt =
     (if i < n_joints then
        (case at_read curr_vals i of
           Inl e \<Rightarrow> Inl e
         | Inr v \<Rightarrow> jnt_pos_start_loop (i + 1) curr_vals (jnt[i := v]))
      else Inr jnt)"
  by pat_completeness auto
termination
  by (relation "measure (\<lambda>(i, curr_vals, jnt). n_joints - i)") auto

declare jnt_pos_start_loop.simps [simp del]

text \<open>\<^verbatim>\<open>for (i < n_joints) res_vals.at(i) = jnt_pos_goal.data(i);\<close>\<close>

function res_vals_loop :: "nat \<Rightarrow> real list \<Rightarrow> real list \<Rightarrow> outcome \<times> real list" where
  "res_vals_loop i jnt_pos_goal res_vals =
     (if i < n_joints then
        (if i < length res_vals then
           res_vals_loop (i + 1) jnt_pos_goal (res_vals[i := jnt_pos_goal ! i])
         else (Thrown out_of_range, res_vals))
      else (Returned, res_vals))"
  by pat_completeness auto
termination
  by (relation "measure (\<lambda>(i, jnt_pos_goal, res_vals). n_joints - i)") auto

declare res_vals_loop.simps [simp del]

text \<open>
  The task-space goal \<^verbatim>\<open>KDL::Frame tcp_pos_goal(orientation, vec_tcp_pos_goal)\<close>, from the
  global orientation and the first three entries of the desired position.
\<close>

definition tcp_pos_goal :: "'r \<Rightarrow> real list \<Rightarrow> error + 'r Frame" where
  "tcp_pos_goal ori desired_tcp_pos =
     (case at_read desired_tcp_pos 0 of
        Inl e \<Rightarrow> Inl e
      | Inr px \<Rightarrow>
          (case at_read desired_tcp_pos 1 of
             Inl e \<Rightarrow> Inl e
           | Inr py \<Rightarrow>
               (case at_read desired_tcp_pos 2 of
                  Inl e \<Rightarrow> Inl e
                | Inr pz \<Rightarrow> Inr (ori, (px, py, pz)))))"

text \<open>
  \<open>compute_ik K desired_tcp_pos curr_vals (res_vals, orientation, got_orientation)\<close>:
  the function reads its first two arguments, writes the third, and reads and writes the
  two globals.  The array \<^verbatim>\<open>jnt_pos_goal(n_joints)\<close> holds the first \<^verbatim>\<open>n_joints\<close> coefficients
  the position solver produced.
\<close>

definition compute_ik ::
  "'r kdl \<Rightarrow> real list \<Rightarrow> real list \<Rightarrow> real list \<times> 'r \<times> bool \<Rightarrow> outcome \<times> (real list \<times> 'r \<times> bool)"
where
  "compute_ik K desired_tcp_pos curr_vals g =
     (case g of (res_vals, ori, got) \<Rightarrow>
        (case jnt_pos_start_loop 0 curr_vals (replicate n_joints 0) of
           Inl e \<Rightarrow> (Thrown e, (res_vals, ori, got))
         | Inr jnt_pos_start \<Rightarrow>
             (let (ori', got') =
                    (if \<not> got then (JntToCart K jnt_pos_start, True) else (ori, got))
              in
                (case tcp_pos_goal ori' desired_tcp_pos of
                   Inl e \<Rightarrow> (Thrown e, (res_vals, ori', got'))
                 | Inr goal \<Rightarrow>
                     (let jnt_pos_goal = map (CartToJnt K jnt_pos_start goal) [0..<n_joints]
                      in case res_vals_loop 0 jnt_pos_goal res_vals of
                           (out, res_vals') \<Rightarrow> (out, (res_vals', ori', got')))))))"

section \<open>The fusion tick: controller\_publisher\<close>

text \<open>
  \<^verbatim>\<open>double time = (double) count / control_freq; get_robot_control(time, robot_offset);\<close>
\<close>

definition robot_control_stmt :: "'r RealController \<Rightarrow> outcome \<times> 'r RealController" where
  "robot_control_stmt s =
     (case get_robot_control (real_of_int (count s) / real_of_int control_freq) (robot_offset s) of
        (out, vals) \<Rightarrow> (out, s\<lparr>robot_offset := vals\<rparr>))"

text \<open>
  One line of the convex combination, for axis \<open>i\<close> with weight \<open>a\<close>:
  \<^verbatim>\<open>tcp_pos.at(i) = origin.at(i) + a * human_offset.at(i) + (1-a) * robot_offset.at(i);\<close>
\<close>

definition fuse_axis :: "real \<Rightarrow> nat \<Rightarrow> 'r RealController \<Rightarrow> outcome \<times> 'r RealController" where
  "fuse_axis a i s =
     (if i < length (origin s) \<and> i < length (human_offset s)
         \<and> i < length (robot_offset s) \<and> i < length (tcp_pos s)
      then (Returned,
            s\<lparr>tcp_pos := (tcp_pos s)
                 [i := origin s ! i + a * human_offset s ! i + (1 - a) * robot_offset s ! i]\<rparr>)
      else (Thrown out_of_range, s))"

text \<open>The three lines, for x, y and z, with the weights read from the members.\<close>

definition fuse :: "'r RealController \<Rightarrow> outcome \<times> 'r RealController" where
  "fuse = seq (\<lambda>s. fuse_axis (ax s) 0 s)
            (seq (\<lambda>s. fuse_axis (ay s) 1 s)
                 (\<lambda>s. fuse_axis (az s) 2 s))"

text \<open>\<^verbatim>\<open>compute_ik(tcp_pos, curr_joint_vals, ik_joint_vals);\<close>\<close>

definition ik_stmt :: "'r kdl \<Rightarrow> 'r RealController \<Rightarrow> outcome \<times> 'r RealController" where
  "ik_stmt K s =
     (case compute_ik K (tcp_pos s) (curr_joint_vals s)
             (ik_joint_vals s, orientation s, got_orientation s) of
        (out, (res, ori, got)) \<Rightarrow>
          (out, s\<lparr>ik_joint_vals := res, orientation := ori, got_orientation := got\<rparr>))"

text \<open>\<^verbatim>\<open>if (count < max_count) count++;  w = (double)count / max_count;\<close>\<close>

definition advance :: "'r RealController \<Rightarrow> 'r RealController" where
  "advance s =
     (let c = (if count s < max_count then count s + 1 else count s)
      in s\<lparr>count := c, w := real_of_int c / real_of_int max_count\<rparr>)"

text \<open>
  \<^verbatim>\<open>for (i < n_joints) message_joint_vals.at(i) = w * ik_joint_vals.at(i) + (1-w) * curr_joint_vals.at(i);\<close>
\<close>

function message_loop :: "nat \<Rightarrow> real \<Rightarrow> real list \<Rightarrow> real list \<Rightarrow> real list \<Rightarrow> outcome \<times> real list" where
  "message_loop i wt ik cur msg =
     (if i < n_joints then
        (if i < length ik \<and> i < length cur \<and> i < length msg then
           message_loop (i + 1) wt ik cur (msg[i := wt * ik ! i + (1 - wt) * cur ! i])
         else (Thrown out_of_range, msg))
      else (Returned, msg))"
  by pat_completeness auto
termination
  by (relation "measure (\<lambda>(i, wt, ik, cur, msg). n_joints - i)") auto

declare message_loop.simps [simp del]

definition blend :: "'r RealController \<Rightarrow> outcome \<times> 'r RealController" where
  "blend s =
     (case message_loop 0 (w s) (ik_joint_vals s) (curr_joint_vals s) (message_joint_vals s) of
        (out, msg) \<Rightarrow> (out, s\<lparr>message_joint_vals := msg\<rparr>))"

text \<open>
  \<^verbatim>\<open>if (!within_limits(message_joint_vals)) { ...; rclcpp::shutdown(); }\<close>
  There is no \<^verbatim>\<open>return\<close> in the branch: control goes on to the statements after it.
  The member holds finite numbers, handed to the check as such.
\<close>

definition check_limits :: "'r RealController \<Rightarrow> outcome \<times> 'r RealController" where
  "check_limits s =
     (case within_limits (map Fin (message_joint_vals s)) of
        Inl e \<Rightarrow> (Thrown e, s)
      | Inr ok \<Rightarrow>
          (Returned, if \<not> ok then s\<lparr>ros_calls := ros_calls s @ [shutdown]\<rparr> else s))"

text \<open>
  \<^verbatim>\<open>point.positions = message_joint_vals;\<close>
  \<^verbatim>\<open>point.time_from_start.nanosec = (int)(1000 / control_freq) * latency * 1000000;\<close>
  The quotient is a division of \<^verbatim>\<open>int\<close>s, the products are \<^verbatim>\<open>double\<close>s, and the assignment
  truncates the \<^verbatim>\<open>double\<close> to the \<^verbatim>\<open>uint32\<close> field.
\<close>

definition trajectory_point :: "real list \<Rightarrow> JointTrajectoryPoint" where
  "trajectory_point vals =
     \<lparr> positions = vals,
       time_from_start_sec = 0,
       time_from_start_nanosec =
         word_of_int \<lfloor>real_of_int (1000 div control_freq) * latency * 1000000\<rfloor> \<rparr>"

definition panda_joint_names :: "string list" where
  "panda_joint_names =
     [''panda_joint1'', ''panda_joint2'', ''panda_joint3'', ''panda_joint4'',
      ''panda_joint5'', ''panda_joint6'', ''panda_joint7'']"

text \<open>\<^verbatim>\<open>message.points = {point};  controller_pub_->publish(message);\<close>\<close>

definition publish_point :: "'r RealController \<Rightarrow> outcome \<times> 'r RealController" where
  "publish_point s =
     (Returned,
      s\<lparr>ros_calls := ros_calls s @
           [publish_trajectory
              \<lparr> joint_names = panda_joint_names,
                points = [trajectory_point (message_joint_vals s)] \<rparr>]\<rparr>)"

definition controller_publisher :: "'r kdl \<Rightarrow> 'r RealController \<Rightarrow> outcome \<times> 'r RealController" where
  "controller_publisher K s =
     (if control s then
        seq robot_control_stmt
          (seq fuse
             (seq (ik_stmt K)
                (seq (\<lambda>s. (Returned, advance s))
                   (seq blend
                      (seq check_limits publish_point))))) s
      else (Returned, s))"

section \<open>The other callbacks of the node\<close>

definition tcp_pos_publisher :: "'r RealController \<Rightarrow> outcome \<times> 'r RealController" where
  "tcp_pos_publisher s =
     (if 2 < length (tcp_pos s) then
        (Returned,
         s\<lparr>ros_calls := ros_calls s @
              [publish_tcp_pos
                 \<lparr> falcon_x = tcp_pos s ! 0, falcon_y = tcp_pos s ! 1, falcon_z = tcp_pos s ! 2 \<rparr>]\<rparr>)
      else (Thrown out_of_range, s))"

text \<open>\<^verbatim>\<open>for (i < n_joints) curr_joint_vals.at(i) = data.at(i);\<close>\<close>

function joint_states_loop :: "nat \<Rightarrow> real list \<Rightarrow> real list \<Rightarrow> outcome \<times> real list" where
  "joint_states_loop i data cur =
     (if i < n_joints then
        (if i < length data \<and> i < length cur then
           joint_states_loop (i + 1) data (cur[i := data ! i])
         else (Thrown out_of_range, cur))
      else (Returned, cur))"
  by pat_completeness auto
termination
  by (relation "measure (\<lambda>(i, data, cur). n_joints - i)") auto

declare joint_states_loop.simps [simp del]

text \<open>The argument is the \<^verbatim>\<open>position\<close> array of the joint-state message.\<close>

definition joint_states_callback :: "real list \<Rightarrow> 'r RealController \<Rightarrow> outcome \<times> 'r RealController" where
  "joint_states_callback data s =
     (case joint_states_loop 0 data (curr_joint_vals s) of
        (Thrown e, cur) \<Rightarrow> (Thrown e, s\<lparr>curr_joint_vals := cur\<rparr>)
      | (Returned, cur) \<Rightarrow>
          (Returned, s\<lparr>curr_joint_vals := cur,
                       control := (if control s = False then True else control s)\<rparr>))"

text \<open>\<^verbatim>\<open>human_offset.at(i) = msg.x / 100 * mapping_ratio;\<close> and the same for y and z.\<close>

definition set_human_offset :: "nat \<Rightarrow> real \<Rightarrow> 'r RealController \<Rightarrow> outcome \<times> 'r RealController" where
  "set_human_offset i v s =
     (if i < length (human_offset s)
      then (Returned, s\<lparr>human_offset := (human_offset s)[i := v / 100 * mapping_ratio]\<rparr>)
      else (Thrown out_of_range, s))"

definition falcon_pos_callback :: "Falconpos \<Rightarrow> 'r RealController \<Rightarrow> outcome \<times> 'r RealController" where
  "falcon_pos_callback msg =
     seq (set_human_offset 0 (falcon_x msg))
       (seq (set_human_offset 1 (falcon_y msg))
            (set_human_offset 2 (falcon_z msg)))"

section \<open>my\_controller.cpp: the torque loop\<close>

text \<open>
  A \<^verbatim>\<open>Vector7d\<close> (a fixed-size Eigen vector of seven \<^verbatim>\<open>double\<close>s) is a
  \<^typ>\<open>double list\<close>, of length 7 in every state the controller can be in; the Eigen
  operations used by \<^verbatim>\<open>update\<close> act coefficient by coefficient.
\<close>

definition vplus :: "double list \<Rightarrow> double list \<Rightarrow> double list" where
  "vplus u v = map2 dadd u v"

definition vminus :: "double list \<Rightarrow> double list \<Rightarrow> double list" where
  "vminus u v = map2 dsub u v"

definition vneg :: "double list \<Rightarrow> double list" where
  "vneg v = map dneg v"

definition vscale :: "double \<Rightarrow> double list \<Rightarrow> double list" where
  "vscale c v = map (dmul c) v"

definition cwiseProduct :: "double list \<Rightarrow> double list \<Rightarrow> double list" where
  "cwiseProduct u v = map2 dmul u v"

text \<open>
  Modelled from the spec: the header \<^verbatim>\<open>my_controller.hpp\<close>, which declares \<^verbatim>\<open>num_joints\<close>, is
  not among the sources; the spec fixes the number of joints at 7.
\<close>

definition num_joints :: nat where
  "num_joints = 7"

text \<open>A loaned state interface: its name and the value it currently reports.\<close>

record StateInterface =
  get_interface_name :: string
  get_value :: double

text \<open>
  The members \<^verbatim>\<open>update\<close> touches; the trailing underscore of a member's name is written
  \<open>_m\<close> here.  A command interface is the value last written to it.  Times are nanosecond
  counts.
\<close>

record MyController =
  q_m :: "double list"
  dq_m :: "double list"
  dq_filtered_m :: "double list"
  k_gains_m :: "double list"
  d_gains_m :: "double list"
  state_interfaces_m :: "StateInterface list"
  command_interfaces_m :: "double list"
  start_time_m :: int

text \<open>
  \<^verbatim>\<open>updateJointStates\<close>: for each joint, \<^verbatim>\<open>state_interfaces_.at(2 * i)\<close> and
  \<^verbatim>\<open>.at(2 * i + 1)\<close>, the two \<^verbatim>\<open>assert\<close>s on the interface names, then the writes to \<^verbatim>\<open>q_(i)\<close> and
  \<^verbatim>\<open>dq_(i)\<close>.
\<close>

function updateJointStates_loop :: "nat \<Rightarrow> MyController \<Rightarrow> outcome \<times> MyController" where
  "updateJointStates_loop i s =
     (if i < num_joints then
        (if 2 * i < length (state_interfaces_m s) \<and> 2 * i + 1 < length (state_interfaces_m s) then
           (let position_interface = state_interfaces_m s ! (2 * i);
                velocity_interface = state_interfaces_m s ! (2 * i + 1)
            in if get_interface_name position_interface \<noteq> ''position'' then (Thrown assertion_failed, s)
               else if get_interface_name velocity_interface \<noteq> ''velocity'' then (Thrown assertion_failed, s)
               else updateJointStates_loop (i + 1)
                      (s\<lparr>q_m := (q_m s)[i := get_value position_interface],
                         dq_m := (dq_m s)[i := get_value velocity_interface]\<rparr>))
         else (Thrown out_of_range, s))
      else (Returned, s))"
  by pat_completeness auto
termination
  by (relation "measure (\<lambda>(i, s). num_joints - i)") auto

declare updateJointStates_loop.simps [simp del]

definition updateJointStates :: "MyController \<Rightarrow> outcome \<times> MyController" where
  "updateJointStates s = updateJointStates_loop 0 s"

text \<open>
  \<^verbatim>\<open>for (int i = 0; i < 7; ++i) command_interfaces_[i].set_value(tau_d_calculated(i));\<close>
  The subscript on the vector of command interfaces is unchecked.
\<close>

function set_value_loop :: "nat \<Rightarrow> double list \<Rightarrow> MyController \<Rightarrow> outcome \<times> MyController" where
  "set_value_loop i tau_d_calculated s =
     (if i < 7 then
        (if i < length (command_interfaces_m s) then
           set_value_loop (i + 1) tau_d_calculated
             (s\<lparr>command_interfaces_m := (command_interfaces_m s)[i := tau_d_calculated ! i]\<rparr>)
         else (Thrown undefined_behaviour, s))
      else (Returned, s))"
  by pat_completeness auto
termination
  by (relation "measure (\<lambda>(i, tau, s). 7 - i)") auto

declare set_value_loop.simps [simp del]

definition kAlpha :: double where
  "kAlpha = Fin 0.99"

text \<open>
  The controller section of \<^verbatim>\<open>update\<close>.  The motion generator is a parameter: \<open>MG d\<close> is the
  pair \<^verbatim>\<open>getDesiredJointPositions\<close> returns for the trajectory time \<open>d\<close>; \<open>now\<close> is the clock
  reading of this call.  The subscriber section before it polls the wait set and prints
  what it takes; it writes no member.
\<close>

definition torque_stmt :: "(int \<Rightarrow> double list \<times> bool) \<Rightarrow> int \<Rightarrow> MyController \<Rightarrow> outcome \<times> MyController" where
  "torque_stmt MG now s =
     (let trajectory_time = now - start_time_m s;
          motion_generator_output = MG trajectory_time;
          q_desired = fst motion_generator_output;
          finished = snd motion_generator_output
      in if \<not> finished then
           (let s1 = s\<lparr>dq_filtered_m :=
                        vplus (vscale (dsub (Fin 1) kAlpha) (dq_filtered_m s))
                              (vscale kAlpha (dq_m s))\<rparr>;
                tau_d_calculated =
                  vplus (cwiseProduct (k_gains_m s1) (vminus q_desired (q_m s1)))
                        (cwiseProduct (d_gains_m s1) (vneg (dq_filtered_m s1)))
            in set_value_loop 0 tau_d_calculated s1)
         else (Returned,
               s\<lparr>command_interfaces_m :=
                   map (\<lambda>command_interface. Fin 0) (command_interfaces_m s)\<rparr>))"

definition update :: "(int \<Rightarrow> double list \<times> bool) \<Rightarrow> int \<Rightarrow> MyController \<Rightarrow> outcome \<times> MyController" where
  "update MG now = seq updateJointStates (torque_stmt MG now)"

section \<open>What the subscriber callbacks own\<close>

text \<open>
  The two members that the subscriber callbacks write: the current joint vector and the
  human (haptic) offset.
\<close>

abbreviation sensed :: "'r RealController \<Rightarrow> real list \<times> real list" where
  "sensed s \<equiv> (curr_joint_vals s, human_offset s)"

section \<open>Example inputs\<close>

text \<open>
  Concrete inputs on which the theorems below are evaluated: a torque controller whose
  first proportional gain is \<open>k\<close>, whose first joint reports the velocity \<open>v\<close> and whose
  filtered velocity of the first joint is \<open>f\<close>, and a motion generator that answers with
  the desired positions \<open>qd\<close> and the flag \<open>fin\<close> at every time.
\<close>

definition controller_example :: "double \<Rightarrow> real \<Rightarrow> real \<Rightarrow> MyController" where
  "controller_example k v f =
     \<lparr> q_m = map Fin [0, 0, 0, 0, 0, 0, 0],
       dq_m = map Fin [0, 0, 0, 0, 0, 0, 0],
       dq_filtered_m = map Fin [f, 0, 0, 0, 0, 0, 0],
       k_gains_m = [k, Fin 600, Fin 600, Fin 600, Fin 250, Fin 150, Fin 50],
       d_gains_m = map Fin [30, 30, 30, 30, 10, 10, 5],
       state_interfaces_m =
         [\<lparr>get_interface_name = ''position'', get_value = Fin 0.1\<rparr>,
          \<lparr>get_interface_name = ''velocity'', get_value = Fin v\<rparr>,
          \<lparr>get_interface_name = ''position'', get_value = Fin (-0.7)\<rparr>,
          \<lparr>get_interface_name = ''velocity'', get_value = Fin 0\<rparr>,
          \<lparr>get_interface_name = ''position'', get_value = Fin 0\<rparr>,
          \<lparr>get_interface_name = ''velocity'', get_value = Fin 0\<rparr>,
          \<lparr>get_interface_name = ''position'', get_value = Fin (-2.3)\<rparr>,
          \<lparr>get_interface_name = ''velocity'', get_value = Fin 0\<rparr>,
          \<lparr>get_interface_name = ''position'', get_value = Fin 0\<rparr>,
          \<lparr>get_interface_name = ''velocity'', get_value = Fin 0\<rparr>,
          \<lparr>get_interface_name = ''position'', get_value = Fin 1.5\<rparr>,
          \<lparr>get_interface_name = ''velocity'', get_value = Fin 0\<rparr>,
          \<lparr>get_interface_name = ''position'', get_value = Fin 0.8\<rparr>,
          \<lparr>get_interface_name = ''velocity'', get_value = Fin 0\<rparr>],
       command_interfaces_m = map Fin [1, 2, 3, 4, 5, 6, 7],
       start_time_m = 2 \<rparr>"

definition generator_example :: "double list \<Rightarrow> bool \<Rightarrow> int \<Rightarrow> double list \<times> bool" where
  "generator_example qd fin d = (qd, fin)"

section \<open>Properties of the fusion node\<close>

subsection \<open>The autonomous trajectory source\<close>

text \<open>
  Claim C2 says that \<^verbatim>\<open>get_robot_control\<close>, called on the 3-element offset vector, returns
  normally with all three axes set to \<open>t\<close>.  The loop runs to \<^verbatim>\<open>n_joints\<close> = 7: on any
  3-element vector it writes the three entries and then \<^verbatim>\<open>vals.at(3)\<close> throws
  \<^verbatim>\<open>std::out_of_range\<close>.
\<close>

theorem get_robot_control_three_throws:
  "get_robot_control t [a, b, c] = (Thrown out_of_range, [t, t, t])"
  by (simp add: get_robot_control_def get_robot_control_loop.simps n_joints_def)

subsection \<open>The safety limiter\<close>

text \<open>
  What the loop computes on any 7-element vector of doubles: it returns, and it returns true
  exactly when no entry compares greater than its upper limit or less than its lower limit.
\<close>

lemma within_limits_loop_spec:
  "length v = n_joints \<Longrightarrow>
   within_limits_loop i v =
     Inr (\<forall>j. i \<le> j \<and> j < n_joints \<longrightarrow>
            \<not> dgreater (v ! j) (upper_joint_limits ! j) \<and> \<not> dless (v ! j) (lower_joint_limits ! j))"
proof (induction i v rule: within_limits_loop.induct)
  case (1 i vals)
  have len: "length upper_joint_limits = n_joints" "length lower_joint_limits = n_joints"
    by (simp_all add: upper_joint_limits_def lower_joint_limits_def n_joints_def)
  show ?case
  proof (cases "i < n_joints")
    case False
    then show ?thesis by (subst within_limits_loop.simps) auto
  next
    case True
    let ?P = "\<lambda>j. \<not> dgreater (vals ! j) (upper_joint_limits ! j)
                 \<and> \<not> dless (vals ! j) (lower_joint_limits ! j)"
    have split: "(\<forall>j. i \<le> j \<and> j < n_joints \<longrightarrow> ?P j) \<longleftrightarrow>
                 (?P i \<and> (\<forall>j. i + 1 \<le> j \<and> j < n_joints \<longrightarrow> ?P j))"
    proof -
      have "\<And>j. i \<le> j \<longleftrightarrow> j = i \<or> i + 1 \<le> j" by auto
      then show ?thesis using True by auto
    qed
    show ?thesis
    proof (cases "?P i")
      case ok: True
      have "within_limits_loop i vals = within_limits_loop (i + 1) vals"
        using True ok len "1.prems"
        by (subst within_limits_loop.simps) (simp add: at_read_def)
      also have "\<dots> = Inr (\<forall>j. i + 1 \<le> j \<and> j < n_joints \<longrightarrow> ?P j)"
        using True ok len "1.prems" by (intro "1.IH") (auto simp: at_read_def)
      also have "(\<forall>j. i + 1 \<le> j \<and> j < n_joints \<longrightarrow> ?P j) \<longleftrightarrow>
                 (\<forall>j. i \<le> j \<and> j < n_joints \<longrightarrow> ?P j)"
        using ok split by blast
      finally show ?thesis .
    next
      case bad: False
      have "within_limits_loop i vals = Inr False"
        using True bad len "1.prems"
        by (subst within_limits_loop.simps) (auto simp: at_read_def)
      moreover have "\<not> (\<forall>j. i \<le> j \<and> j < n_joints \<longrightarrow> ?P j)"
        using bad True by (meson le_refl)
      ultimately show ?thesis by simp
    qed
  qed
qed

lemma limits_finite:
  "j < n_joints \<Longrightarrow> \<exists>l u. lower_joint_limits ! j = Fin l \<and> upper_joint_limits ! j = Fin u"
  unfolding n_joints_def lower_joint_limits_def upper_joint_limits_def
  by (simp del: list.map)

lemma in_interval:
  "v \<noteq> NaN \<Longrightarrow>
   (\<not> dgreater v (Fin u) \<and> \<not> dless v (Fin l)) = (dle (Fin l) v \<and> dle v (Fin u))"
  by (cases v) (auto simp: dgreater_def)

lemma within_limits_home:
  "within_limits (map Fin [0, 0, 0, -1, 0, 1, 0]) = Inr True"
  unfolding within_limits_def
  by (simp add: within_limits_loop.simps at_read_def n_joints_def dgreater_def
        upper_joint_limits_def lower_joint_limits_def)

text \<open>
  Claim C3, as the claim states it, fails on a vector with a NaN entry: both comparisons of
  the loop are false on NaN, so the check returns true although the entry lies in no
  interval.
\<close>

theorem within_limits_nan_counterexample:
  "within_limits [NaN, Fin 0, Fin 0, Fin (-1), Fin 0, Fin 1, Fin 0] = Inr True
   \<and> \<not> (dle (lower_joint_limits ! 0) ([NaN, Fin 0, Fin 0, Fin (-1), Fin 0, Fin 1, Fin 0] ! 0)
         \<and> dle ([NaN, Fin 0, Fin 0, Fin (-1), Fin 0, Fin 1, Fin 0] ! 0) (upper_joint_limits ! 0))"
  unfolding within_limits_def
  by (simp add: within_limits_loop.simps at_read_def n_joints_def dgreater_def
        upper_joint_limits_def lower_joint_limits_def)

text \<open>
  Claim C3, amended: on a 7-element joint vector with no NaN entry (finite or infinite
  entries) \<^verbatim>\<open>within_limits\<close> returns (it does not throw), and it returns true exactly when
  every entry lies in the closed interval between its lower and its upper limit.
\<close>

theorem within_limits_iff:
  "length v = 7 \<and> NaN \<notin> set v \<longrightarrow>
   within_limits v =
     Inr (\<forall>i<7. dle (lower_joint_limits ! i) (v ! i) \<and> dle (v ! i) (upper_joint_limits ! i))"
proof (intro impI, elim conjE)
  assume len: "length v = 7" and nn: "NaN \<notin> set v"
  have eq: "(\<not> dgreater (v ! j) (upper_joint_limits ! j) \<and> \<not> dless (v ! j) (lower_joint_limits ! j))
            = (dle (lower_joint_limits ! j) (v ! j) \<and> dle (v ! j) (upper_joint_limits ! j))"
    if "j < 7" for j
  proof -
    from that len nn have "v ! j \<noteq> NaN" by (metis nth_mem)
    moreover from that obtain l u where
      "lower_joint_limits ! j = Fin l" "upper_joint_limits ! j = Fin u"
      using limits_finite [of j] by (auto simp: n_joints_def)
    ultimately show ?thesis by (simp add: in_interval)
  qed
  have "within_limits v =
          Inr (\<forall>j<7. \<not> dgreater (v ! j) (upper_joint_limits ! j)
                       \<and> \<not> dless (v ! j) (lower_joint_limits ! j))"
    using within_limits_loop_spec [of v 0] len by (simp add: within_limits_def n_joints_def)
  then show "within_limits v =
     Inr (\<forall>i<7. dle (lower_joint_limits ! i) (v ! i) \<and> dle (v ! i) (upper_joint_limits ! i))"
    using eq by simp
qed

theorem within_limits_iff_witness:
  "length (map Fin [0, 0, 0, -1, 0, 1, 0]) = 7
   \<and> NaN \<notin> set (map Fin [0, 0, 0, -1, 0, 1, 0])
   \<and> within_limits (map Fin [0, 0, 0, -1, 0, 1, 0]) = Inr True
   \<and> dle (lower_joint_limits ! 3) (map Fin [0, 0, 0, -1, 0, 1, 0] ! 3)
   \<and> dle (map Fin [0, 0, 0, -1, 0, 1, 0] ! 3) (upper_joint_limits ! 3)"
proof -
  let ?v = "map Fin [0, 0, 0, -1, 0, 1, 0]"
  have hyp: "length ?v = 7 \<and> NaN \<notin> set ?v" by simp
  have "\<forall>i<7. dle (lower_joint_limits ! i) (?v ! i) \<and> dle (?v ! i) (upper_joint_limits ! i)"
    using within_limits_iff [of ?v] hyp within_limits_home by simp
  then have "dle (lower_joint_limits ! 3) (?v ! 3) \<and> dle (?v ! 3) (upper_joint_limits ! 3)"
    by (elim allE [of _ 3]) simp
  with hyp within_limits_home show ?thesis by blast
qed

subsection \<open>Sequencing\<close>

lemma seq_cases:
  "seq f g s = (out, s') \<Longrightarrow>
     (\<exists>e. f s = (Thrown e, s') \<and> out = Thrown e)
     \<or> (\<exists>s1. f s = (Returned, s1) \<and> g s1 = (out, s'))"
  by (auto simp: seq_def split: prod.splits outcome.splits)

lemma seq_Returned: "f s = (Returned, s1) \<Longrightarrow> seq f g s = g s1"
  by (simp add: seq_def)

lemma seq_Thrown: "f s = (Thrown e, s1) \<Longrightarrow> seq f g s = (Thrown e, s1)"
  by (simp add: seq_def)

lemma seq_frame:
  assumes "\<And>s. sel (snd (f s)) = sel s" "\<And>s. sel (snd (g s)) = sel s"
  shows "sel (snd (seq f g s)) = sel s"
proof (cases "f s")
  case (Pair out s1)
  with assms(1) [of s] have s1: "sel s1 = sel s" by simp
  show ?thesis
  proof (cases out)
    case Returned
    with Pair have "seq f g s = g s1" by (simp add: seq_def)
    with assms(2) [of s1] s1 show ?thesis by simp
  next
    case (Thrown e)
    with Pair s1 show ?thesis by (simp add: seq_def)
  qed
qed

subsection \<open>The smoothing ramp\<close>

lemma max_count_200: "max_count = 200"
  by (simp add: max_count_def control_freq_def)

lemma count_advance: "count (advance s) = (if count s < max_count then count s + 1 else count s)"
  by (simp add: advance_def Let_def)

lemma w_advance: "w (advance s) = real_of_int (count (advance s)) / real_of_int max_count"
  by (simp add: advance_def Let_def)

lemma count_advance_pow:
  "count s = 0 \<Longrightarrow> count ((advance ^^ n) s) = min (int n) max_count"
proof (induction n)
  case 0
  then show ?case by (simp add: max_count_200)
next
  case (Suc n)
  then show ?case by (auto simp: count_advance max_count_200)
qed

lemma w_advance_pow:
  assumes "count s = 0" "w s = 0"
  shows "w ((advance ^^ n) s) = real_of_int (min (int n) max_count) / real_of_int max_count"
proof (cases n)
  case 0
  with assms show ?thesis by (simp add: max_count_200)
next
  case (Suc k)
  have "w ((advance ^^ n) s) = real_of_int (count ((advance ^^ n) s)) / real_of_int max_count"
    unfolding Suc by (simp add: w_advance)
  with assms show ?thesis by (simp add: count_advance_pow)
qed

text \<open>
  Claim C4: starting from the initial counter and weight (both 0), after \<open>n\<close> advances of the
  ramp the weight is \<open>min n max_count / max_count\<close>.  Hence it never decreases from one
  advance to a later one, it is exactly 1 when the counter equals \<open>max_count\<close>, it never
  exceeds 1 and stays 1 from \<open>max_count\<close> advances on; \<open>max_count\<close> is 200, the weight is 0.5
  after 100 advances and 1 after 200.
\<close>

theorem smoothing_ramp:
  "count s = 0 \<and> w s = 0 \<longrightarrow>
     w ((advance ^^ n) s) = real_of_int (min (int n) max_count) / real_of_int max_count
   \<and> (m \<le> n \<longrightarrow> w ((advance ^^ m) s) \<le> w ((advance ^^ n) s))
   \<and> (count ((advance ^^ n) s) = max_count \<longrightarrow> w ((advance ^^ n) s) = 1)
   \<and> w ((advance ^^ n) s) \<le> 1
   \<and> (nat max_count \<le> n \<longrightarrow> w ((advance ^^ n) s) = 1)
   \<and> max_count = 200
   \<and> w ((advance ^^ 100) s) = 0.5
   \<and> w ((advance ^^ 200) s) = 1.0"
proof (intro impI, elim conjE)
  assume a: "count s = 0" "w s = 0"
  note W = w_advance_pow [OF a]
  have mono: "m \<le> n \<longrightarrow> w ((advance ^^ m) s) \<le> w ((advance ^^ n) s)"
    unfolding W by (auto simp: max_count_200 divide_right_mono)
  have top: "count ((advance ^^ n) s) = max_count \<longrightarrow> w ((advance ^^ n) s) = 1"
    using a by (simp add: W count_advance_pow max_count_200)
  have le1: "w ((advance ^^ n) s) \<le> 1"
    unfolding W by (simp add: max_count_200)
  have stay: "nat max_count \<le> n \<longrightarrow> w ((advance ^^ n) s) = 1"
    unfolding W by (auto simp: max_count_200)
  have c100: "w ((advance ^^ 100) s) = 0.5" unfolding W by (simp add: max_count_200)
  have c200: "w ((advance ^^ 200) s) = 1.0" unfolding W by (simp add: max_count_200)
  show "w ((advance ^^ n) s) = real_of_int (min (int n) max_count) / real_of_int max_count
   \<and> (m \<le> n \<longrightarrow> w ((advance ^^ m) s) \<le> w ((advance ^^ n) s))
   \<and> (count ((advance ^^ n) s) = max_count \<longrightarrow> w ((advance ^^ n) s) = 1)
   \<and> w ((advance ^^ n) s) \<le> 1
   \<and> (nat max_count \<le> n \<longrightarrow> w ((advance ^^ n) s) = 1)
   \<and> max_count = 200
   \<and> w ((advance ^^ 100) s) = 0.5
   \<and> w ((advance ^^ 200) s) = 1.0"
    using W mono top le1 stay c100 c200 max_count_200 by blast
qed

theorem smoothing_ramp_witness:
  "count (initial ()) = 0 \<and> w (initial ()) = 0
   \<and> (100 :: nat) \<le> 200
   \<and> count ((advance ^^ 200) (initial ())) = max_count
   \<and> nat max_count \<le> 200
   \<and> w ((advance ^^ 100) (initial ())) \<le> w ((advance ^^ 200) (initial ()))
   \<and> w ((advance ^^ 100) (initial ())) = 0.5
   \<and> w ((advance ^^ 200) (initial ())) = 1"
proof -
  have a: "count (initial ()) = 0 \<and> w (initial ()) = 0"
    by (simp add: initial_def)
  then have c: "count ((advance ^^ 200) (initial ())) = max_count"
    by (simp add: count_advance_pow max_count_200)
  have n: "nat max_count \<le> 200"
    by (simp add: max_count_200)
  from smoothing_ramp [of "initial ()" 200 100] a c n show ?thesis
    by simp
qed

subsection \<open>The Cartesian fusion\<close>

text \<open>
  Claim C6: when the four Cartesian vectors have their three entries, the fusion lines do
  not throw and leave, on each axis, the origin plus the weighted human offset plus the
  complementary share of the autonomous offset; with all three weights 1 that is the origin
  plus the human offset, whatever the autonomous offset is.
\<close>

theorem fuse_convex:
  "3 \<le> length (origin s) \<and> 3 \<le> length (human_offset s)
     \<and> 3 \<le> length (robot_offset s) \<and> 3 \<le> length (tcp_pos s) \<longrightarrow>
   fst (fuse s) = Returned
   \<and> tcp_pos (snd (fuse s)) ! 0
        = origin s ! 0 + ax s * human_offset s ! 0 + (1 - ax s) * robot_offset s ! 0
   \<and> tcp_pos (snd (fuse s)) ! 1
        = origin s ! 1 + ay s * human_offset s ! 1 + (1 - ay s) * robot_offset s ! 1
   \<and> tcp_pos (snd (fuse s)) ! 2
        = origin s ! 2 + az s * human_offset s ! 2 + (1 - az s) * robot_offset s ! 2
   \<and> (ax s = 1 \<and> ay s = 1 \<and> az s = 1 \<longrightarrow>
        tcp_pos (snd (fuse s)) ! 0 = origin s ! 0 + human_offset s ! 0
      \<and> tcp_pos (snd (fuse s)) ! 1 = origin s ! 1 + human_offset s ! 1
      \<and> tcp_pos (snd (fuse s)) ! 2 = origin s ! 2 + human_offset s ! 2)"
  by (simp add: fuse_def seq_def fuse_axis_def)

theorem fuse_convex_witness:
  "3 \<le> length (origin ((initial ())\<lparr>human_offset := [0.015, -0.03, 0], robot_offset := [0.5, 0.5, 0.5]\<rparr>))
   \<and> ax ((initial ())\<lparr>human_offset := [0.015, -0.03, 0], robot_offset := [0.5, 0.5, 0.5]\<rparr>) = 1
   \<and> fst (fuse ((initial ())\<lparr>human_offset := [0.015, -0.03, 0], robot_offset := [0.5, 0.5, 0.5]\<rparr>))
       = Returned
   \<and> tcp_pos (snd (fuse ((initial ())\<lparr>human_offset := [0.015, -0.03, 0], robot_offset := [0.5, 0.5, 0.5]\<rparr>))) ! 0
       = 0.4709
   \<and> tcp_pos (snd (fuse ((initial ())\<lparr>human_offset := [0.015, -0.03, 0], robot_offset := [0.5, 0.5, 0.5]\<rparr>))) ! 1
       = - 0.03
   \<and> tcp_pos (snd (fuse ((initial ())\<lparr>human_offset := [0.015, -0.03, 0], robot_offset := [0.5, 0.5, 0.5]\<rparr>))) ! 2
       = 0.3346"
  using fuse_convex [of "(initial ())\<lparr>human_offset := [0.015, -0.03, 0], robot_offset := [0.5, 0.5, 0.5]\<rparr>"]
  by (simp add: initial_def)

subsection \<open>The injected delay\<close>

text \<open>
  Claim C9: the trajectory point built from any joint vector carries the delay
  \<open>\<lfloor>1000 / 20\<rfloor> * 2.0 = 100\<close> milliseconds, written into the \<^verbatim>\<open>nanosec\<close> field of
  \<^verbatim>\<open>time_from_start\<close> as \<open>100 * 1000000\<close> nanoseconds, with the \<^verbatim>\<open>sec\<close> field 0.  The value does
  not depend on the joint vector nor on any state of the node.
\<close>

theorem trajectory_point_delay:
  "time_from_start_nanosec (trajectory_point vals) = 100 * 1000000
   \<and> unat (time_from_start_nanosec (trajectory_point vals)) = 100000000
   \<and> time_from_start_sec (trajectory_point vals) = 0
   \<and> real_of_int \<lfloor>real_of_int 1000 / real_of_int control_freq\<rfloor> * latency = 100
   \<and> positions (trajectory_point vals) = vals"
  by (simp add: trajectory_point_def control_freq_def latency_def)

subsection \<open>The frame of the tick\<close>

lemmas seq_sensed = seq_frame [where sel = "\<lambda>s. (curr_joint_vals s, human_offset s)"]

lemma robot_control_stmt_sensed: "sensed (snd (robot_control_stmt s)) = sensed s"
  by (simp add: robot_control_stmt_def split: prod.splits)

lemma fuse_axis_sensed: "sensed (snd (fuse_axis a i s)) = sensed s"
  by (simp add: fuse_axis_def)

lemma fuse_sensed: "sensed (snd (fuse s)) = sensed s"
  unfolding fuse_def by (intro seq_sensed fuse_axis_sensed)

lemma ik_stmt_sensed: "sensed (snd (ik_stmt K s)) = sensed s"
  by (simp add: ik_stmt_def split: prod.splits)

lemma advance_sensed: "sensed (snd (Returned, advance s)) = sensed s"
  by (simp add: advance_def Let_def)

lemma blend_sensed: "sensed (snd (blend s)) = sensed s"
  by (simp add: blend_def split: prod.splits)

lemma check_limits_sensed: "sensed (snd (check_limits s)) = sensed s"
  by (simp add: check_limits_def split: sum.splits)

lemma publish_point_sensed: "sensed (snd (publish_point s)) = sensed s"
  by (simp add: publish_point_def)

lemma controller_publisher_sensed: "sensed (snd (controller_publisher K s)) = sensed s"
proof (cases "control s")
  case True
  have "sensed (snd (seq robot_control_stmt
          (seq fuse (seq (ik_stmt K) (seq (\<lambda>s. (Returned, advance s))
             (seq blend (seq check_limits publish_point))))) s)) = sensed s"
    by (intro seq_sensed robot_control_stmt_sensed fuse_sensed ik_stmt_sensed
          advance_sensed blend_sensed check_limits_sensed publish_point_sensed)
  with True show ?thesis by (simp add: controller_publisher_def)
next
  case False
  then show ?thesis by (simp add: controller_publisher_def)
qed

lemma set_human_offset_curr: "curr_joint_vals (snd (set_human_offset i v s)) = curr_joint_vals s"
  by (simp add: set_human_offset_def)

text \<open>
  Claim C10: whatever the state and however the tick ends (also when it throws), the tick
  leaves the current joint vector and the human offset as they were.  Of the other three
  callbacks, the telemetry timer writes neither, the joint-state callback does not write the
  human offset, and the haptic callback does not write the current joint vector.
\<close>

theorem tick_frame:
  "curr_joint_vals (snd (controller_publisher K s)) = curr_joint_vals s
   \<and> human_offset (snd (controller_publisher K s)) = human_offset s
   \<and> curr_joint_vals (snd (tcp_pos_publisher s)) = curr_joint_vals s
   \<and> human_offset (snd (tcp_pos_publisher s)) = human_offset s
   \<and> human_offset (snd (joint_states_callback data s)) = human_offset s
   \<and> curr_joint_vals (snd (falcon_pos_callback msg s)) = curr_joint_vals s"
proof -
  have "sensed (snd (controller_publisher K s)) = sensed s"
    by (rule controller_publisher_sensed)
  then have a: "curr_joint_vals (snd (controller_publisher K s)) = curr_joint_vals s"
    and b: "human_offset (snd (controller_publisher K s)) = human_offset s"
    by simp_all
  have c: "curr_joint_vals (snd (tcp_pos_publisher s)) = curr_joint_vals s"
    and d: "human_offset (snd (tcp_pos_publisher s)) = human_offset s"
    by (simp_all add: tcp_pos_publisher_def)
  have e: "human_offset (snd (joint_states_callback data s)) = human_offset s"
    by (simp add: joint_states_callback_def split: prod.splits outcome.splits)
  have f: "curr_joint_vals (snd (falcon_pos_callback msg s)) = curr_joint_vals s"
    unfolding falcon_pos_callback_def by (intro seq_frame set_human_offset_curr)
  from a b c d e f show ?thesis by blast
qed

subsection \<open>The frozen orientation\<close>

lemma jnt_pos_start_loop_take:
  "i \<le> n_joints \<Longrightarrow> n_joints \<le> length curr_vals \<Longrightarrow> length jnt = n_joints \<Longrightarrow>
   jnt_pos_start_loop i curr_vals jnt = Inr (take i jnt @ drop i (take n_joints curr_vals))"
proof (induction i curr_vals jnt rule: jnt_pos_start_loop.induct)
  case (1 i curr_vals jnt)
  show ?case
  proof (cases "i < n_joints")
    case False
    with "1.prems" have "i = n_joints" by simp
    with "1.prems" show ?thesis by (subst jnt_pos_start_loop.simps) simp
  next
    case True
    with "1.prems" have rd: "at_read curr_vals i = Inr (curr_vals ! i)"
      by (simp add: at_read_def)
    have "jnt_pos_start_loop i curr_vals jnt
            = jnt_pos_start_loop (i + 1) curr_vals (jnt[i := curr_vals ! i])"
      using True rd by (subst jnt_pos_start_loop.simps) simp
    also have "\<dots> = Inr (take (i + 1) (jnt[i := curr_vals ! i]) @ drop (i + 1) (take n_joints curr_vals))"
      using True rd "1.prems" by (intro "1.IH") auto
    also have "take (i + 1) (jnt[i := curr_vals ! i]) = take i jnt @ [curr_vals ! i]"
      using True "1.prems" by (simp add: take_Suc_conv_app_nth)
    also have "(take i jnt @ [curr_vals ! i]) @ drop (i + 1) (take n_joints curr_vals)
                 = take i jnt @ drop i (take n_joints curr_vals)"
      using True "1.prems" by (simp add: Cons_nth_drop_Suc [symmetric])
    finally show ?thesis .
  qed
qed

lemma jnt_pos_start:
  "n_joints \<le> length curr_vals \<Longrightarrow>
   jnt_pos_start_loop 0 curr_vals (replicate n_joints 0) = Inr (take n_joints curr_vals)"
  using jnt_pos_start_loop_take [of 0 curr_vals "replicate n_joints 0"] by simp

lemma res_vals_loop_take:
  "i \<le> n_joints \<Longrightarrow> length jnt_pos_goal = n_joints \<Longrightarrow> length res_vals = n_joints \<Longrightarrow>
   res_vals_loop i jnt_pos_goal res_vals = (Returned, take i res_vals @ drop i jnt_pos_goal)"
proof (induction i jnt_pos_goal res_vals rule: res_vals_loop.induct)
  case (1 i jnt_pos_goal res_vals)
  show ?case
  proof (cases "i < n_joints")
    case False
    with "1.prems" have "i = n_joints" by simp
    with "1.prems" show ?thesis by (subst res_vals_loop.simps) simp
  next
    case True
    have "res_vals_loop i jnt_pos_goal res_vals
            = res_vals_loop (i + 1) jnt_pos_goal (res_vals[i := jnt_pos_goal ! i])"
      using True "1.prems" by (subst res_vals_loop.simps) simp
    also have "\<dots> = (Returned, take (i + 1) (res_vals[i := jnt_pos_goal ! i]) @ drop (i + 1) jnt_pos_goal)"
      using True "1.prems" by (intro "1.IH") auto
    also have "take (i + 1) (res_vals[i := jnt_pos_goal ! i]) = take i res_vals @ [jnt_pos_goal ! i]"
      using True "1.prems" by (simp add: take_Suc_conv_app_nth)
    also have "(take i res_vals @ [jnt_pos_goal ! i]) @ drop (i + 1) jnt_pos_goal
                 = take i res_vals @ drop i jnt_pos_goal"
      using True "1.prems" by (simp add: Cons_nth_drop_Suc [symmetric])
    finally show ?thesis .
  qed
qed

lemma tcp_pos_goal_three:
  "3 \<le> length d \<Longrightarrow> tcp_pos_goal ori d = Inr (ori, (d ! 0, d ! 1, d ! 2))"
  by (auto simp: tcp_pos_goal_def at_read_def)

lemma compute_ik_captured:
  "3 \<le> length d \<Longrightarrow> n_joints \<le> length c \<Longrightarrow> length r = n_joints \<Longrightarrow>
   compute_ik K d c (r, ori, True) =
     (Returned, (map (CartToJnt K (take n_joints c) (ori, (d ! 0, d ! 1, d ! 2))) [0..<n_joints], ori, True))"
  by (simp add: compute_ik_def jnt_pos_start tcp_pos_goal_three res_vals_loop_take)

lemma compute_ik_keeps:
  "snd (snd (compute_ik K d c (r, ori, True))) = (ori, True)"
  by (simp add: compute_ik_def Let_def split: sum.splits prod.splits)

lemma compute_ik_first:
  "n_joints \<le> length c \<Longrightarrow>
   snd (snd (compute_ik K d c (r, ori, False))) = (JntToCart K (take n_joints c), True)"
  by (simp add: compute_ik_def jnt_pos_start Let_def split: sum.splits prod.splits)

lemma compute_ik_calls_keep:
  "snd (foldl (\<lambda>g (d, c). snd (compute_ik K d c g)) (r, ori, True) calls) = (ori, True)"
proof (induction calls arbitrary: r)
  case Nil
  show ?case by simp
next
  case (Cons a calls)
  obtain d c where a: "a = (d, c)" by (cases a)
  obtain r' where "snd (compute_ik K d c (r, ori, True)) = (r', ori, True)"
    using compute_ik_keeps [of K d c r ori] by (cases "snd (compute_ik K d c (r, ori, True))") simp
  with Cons.IH [of r'] a show ?case by simp
qed


lemma compute_ik_orientation:
  "n_joints \<le> length curr_vals \<longrightarrow>
     snd (snd (compute_ik K desired curr_vals (res, ori, False)))
       = (JntToCart K (take n_joints curr_vals), True)
   \<and> snd (foldl (\<lambda>g (d, c). snd (compute_ik K d c g))
             (snd (compute_ik K desired curr_vals (res, ori, False))) calls)
       = (JntToCart K (take n_joints curr_vals), True)
   \<and> (3 \<le> length d \<and> n_joints \<le> length c \<and> length r = n_joints \<longrightarrow>
        compute_ik K d c (r, JntToCart K (take n_joints curr_vals), True) =
          (Returned,
           (map (CartToJnt K (take n_joints c)
                   (JntToCart K (take n_joints curr_vals), (d ! 0, d ! 1, d ! 2))) [0..<n_joints],
            JntToCart K (take n_joints curr_vals), True)))"
proof (intro impI conjI)
  assume len: "n_joints \<le> length curr_vals"
  let ?o = "JntToCart K (take n_joints curr_vals)"
  show first: "snd (snd (compute_ik K desired curr_vals (res, ori, False))) = (?o, True)"
    using len by (rule compute_ik_first)
  then obtain r1 where "snd (compute_ik K desired curr_vals (res, ori, False)) = (r1, ?o, True)"
    by (cases "snd (compute_ik K desired curr_vals (res, ori, False))") simp
  then show "snd (foldl (\<lambda>g (d, c). snd (compute_ik K d c g))
             (snd (compute_ik K desired curr_vals (res, ori, False))) calls) = (?o, True)"
    by (simp add: compute_ik_calls_keep)
next
  assume "3 \<le> length d \<and> n_joints \<le> length c \<and> length r = n_joints"
  then show "compute_ik K d c (r, JntToCart K (take n_joints curr_vals), True) =
          (Returned,
           (map (CartToJnt K (take n_joints c)
                   (JntToCart K (take n_joints curr_vals), (d ! 0, d ! 1, d ! 2))) [0..<n_joints],
            JntToCart K (take n_joints curr_vals), True))"
    by (simp add: compute_ik_captured)
qed

lemma seq_inv:
  assumes "\<And>s. P s \<Longrightarrow> P (snd (f s))" "\<And>s. P s \<Longrightarrow> P (snd (g s))" "P s"
  shows "P (snd (seq f g s))"
proof (cases "f s")
  case (Pair out s1)
  with assms(1) [OF assms(3)] have s1: "P s1" by simp
  show ?thesis
  proof (cases out)
    case Returned
    with Pair have "seq f g s = g s1" by (simp add: seq_def)
    with assms(2) [OF s1] show ?thesis by simp
  next
    case (Thrown e)
    with Pair s1 show ?thesis by (simp add: seq_def)
  qed
qed

lemma ik_stmt_keeps:
  assumes "got_orientation s \<and> orientation s = ori"
  shows "got_orientation (snd (ik_stmt K s)) \<and> orientation (snd (ik_stmt K s)) = ori"
proof -
  obtain out r o' g' where
    c: "compute_ik K (tcp_pos s) (curr_joint_vals s) (ik_joint_vals s, ori, True) = (out, (r, o', g'))"
    by (metis prod_cases4)
  with compute_ik_keeps [of K "tcp_pos s" "curr_joint_vals s" "ik_joint_vals s" ori]
  have "o' = ori \<and> g' = True" by simp
  with c assms show ?thesis by (simp add: ik_stmt_def)
qed

lemma controller_publisher_keeps:
  assumes "got_orientation s \<and> orientation s = ori"
  shows "got_orientation (snd (controller_publisher K s))
         \<and> orientation (snd (controller_publisher K s)) = ori"
proof (cases "control s")
  case False
  with assms show ?thesis by (simp add: controller_publisher_def)
next
  case True
  let ?P = "\<lambda>s :: 'a RealController. got_orientation s \<and> orientation s = ori"
  have a: "?P s \<Longrightarrow> ?P (snd (robot_control_stmt s))" for s
    by (simp add: robot_control_stmt_def split: prod.splits)
  have b: "?P s \<Longrightarrow> ?P (snd (fuse s))" for s
    unfolding fuse_def
    by (rule seq_inv [where P = ?P], simp add: fuse_axis_def,
        rule seq_inv [where P = ?P]) (simp_all add: fuse_axis_def)
  have c: "?P s \<Longrightarrow> ?P (snd (ik_stmt K s))" for s
    by (rule ik_stmt_keeps)
  have d: "?P s \<Longrightarrow> ?P (snd (Returned, advance s))" for s
    by (simp add: advance_def Let_def)
  have e: "?P s \<Longrightarrow> ?P (snd (blend s))" for s
    by (simp add: blend_def split: prod.splits)
  have f: "?P s \<Longrightarrow> ?P (snd (check_limits s))" for s
    by (simp add: check_limits_def split: sum.splits)
  have g: "?P s \<Longrightarrow> ?P (snd (publish_point s))" for s
    by (simp add: publish_point_def)
  have fg: "?P s \<Longrightarrow> ?P (snd (seq check_limits publish_point s))" for s
    by (rule seq_inv [where P = ?P]) (erule f, erule g, assumption)
  have efg: "?P s \<Longrightarrow> ?P (snd (seq blend (seq check_limits publish_point) s))" for s
    by (rule seq_inv [where P = ?P]) (erule e, erule fg, assumption)
  have defg: "?P s \<Longrightarrow> ?P (snd (seq (\<lambda>s. (Returned, advance s))
                  (seq blend (seq check_limits publish_point)) s))" for s
    by (rule seq_inv [where P = ?P]) (erule d, erule efg, assumption)
  have cdefg: "?P s \<Longrightarrow> ?P (snd (seq (ik_stmt K) (seq (\<lambda>s. (Returned, advance s))
                  (seq blend (seq check_limits publish_point))) s))" for s
    by (rule seq_inv [where P = ?P]) (erule c, erule defg, assumption)
  have bcdefg: "?P s \<Longrightarrow> ?P (snd (seq fuse (seq (ik_stmt K) (seq (\<lambda>s. (Returned, advance s))
                  (seq blend (seq check_limits publish_point)))) s))" for s
    by (rule seq_inv [where P = ?P]) (erule b, erule cdefg, assumption)
  have "?P (snd (seq robot_control_stmt (seq fuse (seq (ik_stmt K)
                  (seq (\<lambda>s. (Returned, advance s))
                  (seq blend (seq check_limits publish_point))))) s))"
    using assms by (rule seq_inv [where P = ?P, rotated 2]) (erule a, erule bcdefg)
  with True show ?thesis by (simp add: controller_publisher_def)
qed

text \<open>
  Claim C5: a first call of \<^verbatim>\<open>compute_ik\<close> (orientation not yet captured) whose starting
  vector holds its seven joints sets the global orientation to the forward kinematics of
  those joints and sets the flag, however the call ends.  After any further sequence of
  calls, with any targets and starting vectors, orientation and flag are the same.  A
  later call that returns has solved for the goal frame made of that orientation and its own
  target position.  The tick, the only caller, keeps a captured orientation and the flag.
\<close>

theorem frozen_orientation:
  "(n_joints \<le> length curr_vals \<longrightarrow>
     snd (snd (compute_ik K desired curr_vals (res, ori, False)))
       = (JntToCart K (take n_joints curr_vals), True)
   \<and> snd (foldl (\<lambda>g (d, c). snd (compute_ik K d c g))
             (snd (compute_ik K desired curr_vals (res, ori, False))) calls)
       = (JntToCart K (take n_joints curr_vals), True)
   \<and> (3 \<le> length d \<and> n_joints \<le> length c \<and> length r = n_joints \<longrightarrow>
        compute_ik K d c (r, JntToCart K (take n_joints curr_vals), True) =
          (Returned,
           (map (CartToJnt K (take n_joints c)
                   (JntToCart K (take n_joints curr_vals), (d ! 0, d ! 1, d ! 2))) [0..<n_joints],
            JntToCart K (take n_joints curr_vals), True))))
   \<and> (got_orientation s \<longrightarrow>
        got_orientation (snd (controller_publisher K s))
        \<and> orientation (snd (controller_publisher K s)) = orientation s)"
  using compute_ik_orientation [of curr_vals K desired res ori calls d c r]
    controller_publisher_keeps [of s "orientation s" K]
  by blast

theorem frozen_orientation_witness:
  "n_joints \<le> length [0, 0, 0, -1, 0, 1.5, 0 :: real]
   \<and> snd (snd (compute_ik \<lparr>JntToCart = sum_list, CartToJnt = (\<lambda>q goal i. q ! i)\<rparr>
                  [0.4559, 0, 0.3346] [0, 0, 0, -1, 0, 1.5, 0] ([0, 0, 0, 0, 0, 0, 0], 0, False)))
       = (0.5, True)
   \<and> snd (foldl (\<lambda>g (d, c). snd (compute_ik \<lparr>JntToCart = sum_list, CartToJnt = (\<lambda>q goal i. q ! i)\<rparr> d c g))
             (snd (compute_ik \<lparr>JntToCart = sum_list, CartToJnt = (\<lambda>q goal i. q ! i)\<rparr>
                     [0.4559, 0, 0.3346] [0, 0, 0, -1, 0, 1.5, 0] ([0, 0, 0, 0, 0, 0, 0], 0, False)))
             [([0.5, 0, 0.3], [0.25, 0, 0, -1, 0, 1.5, 0])])
       = (0.5, True)
   \<and> 3 \<le> length [0.5, 0, 0.3 :: real]
   \<and> n_joints \<le> length [0.25, 0, 0, -1, 0, 1.5, 0 :: real]
   \<and> length [0, 0, 0, 0, 0, 0, 0 :: real] = n_joints
   \<and> compute_ik \<lparr>JntToCart = sum_list, CartToJnt = (\<lambda>q goal i. q ! i)\<rparr>
        [0.5, 0, 0.3] [0.25, 0, 0, -1, 0, 1.5, 0] ([0, 0, 0, 0, 0, 0, 0], 0.5, True)
       = (Returned, ([0.25, 0, 0, -1, 0, 1.5, 0], 0.5, True))
   \<and> got_orientation ((initial 0.5)\<lparr>got_orientation := True\<rparr>)
   \<and> got_orientation
        (snd (controller_publisher \<lparr>JntToCart = sum_list, CartToJnt = (\<lambda>q goal i. q ! i)\<rparr>
                ((initial 0.5)\<lparr>got_orientation := True\<rparr>)))
   \<and> orientation
        (snd (controller_publisher \<lparr>JntToCart = sum_list, CartToJnt = (\<lambda>q goal i. q ! i)\<rparr>
                ((initial 0.5)\<lparr>got_orientation := True\<rparr>))) = 0.5"
  using frozen_orientation [where curr_vals = "[0, 0, 0, -1, 0, 1.5, 0]"
          and K = "\<lparr>JntToCart = sum_list, CartToJnt = (\<lambda>q goal i. q ! i)\<rparr>"
          and desired = "[0.4559, 0, 0.3346]" and res = "[0, 0, 0, 0, 0, 0, 0]" and ori = 0
          and calls = "[([0.5, 0, 0.3], [0.25, 0, 0, -1, 0, 1.5, 0])]"
          and d = "[0.5, 0, 0.3]" and c = "[0.25, 0, 0, -1, 0, 1.5, 0]"
          and r = "[0, 0, 0, 0, 0, 0, 0]"
          and s = "(initial 0.5)\<lparr>got_orientation := True\<rparr>"]
  by (simp add: n_joints_def upt_rec initial_def)


subsection \<open>What a tick does to the outside\<close>

lemma robot_control_stmt_calls: "ros_calls (snd (robot_control_stmt s)) = ros_calls s"
  by (simp add: robot_control_stmt_def split: prod.splits)

lemma fuse_axis_calls: "ros_calls (snd (fuse_axis a i s)) = ros_calls s"
  by (simp add: fuse_axis_def)

lemma fuse_calls: "ros_calls (snd (fuse s)) = ros_calls s"
  unfolding fuse_def by (intro seq_frame [where sel = ros_calls] fuse_axis_calls)

lemma ik_stmt_calls: "ros_calls (snd (ik_stmt K s)) = ros_calls s"
  by (simp add: ik_stmt_def split: prod.splits)

lemma advance_calls: "ros_calls (advance s) = ros_calls s"
  by (simp add: advance_def Let_def)

lemma blend_calls: "ros_calls (snd (blend s)) = ros_calls s"
  by (simp add: blend_def split: prod.splits)

lemma check_limits_cases:
  "check_limits s = (Returned, s') \<Longrightarrow>
     message_joint_vals s' = message_joint_vals s
     \<and> (within_limits (map Fin (message_joint_vals s)) = Inr True \<and> ros_calls s' = ros_calls s
        \<or> within_limits (map Fin (message_joint_vals s)) = Inr False
          \<and> ros_calls s' = ros_calls s @ [shutdown])"
  by (auto simp: check_limits_def split: sum.splits if_splits)

lemma publish_point_eq:
  "publish_point s = (out, s') \<Longrightarrow>
     out = Returned \<and> message_joint_vals s' = message_joint_vals s
     \<and> ros_calls s' = ros_calls s @
          [publish_trajectory \<lparr> joint_names = panda_joint_names,
                                points = [trajectory_point (message_joint_vals s)] \<rparr>]"
  by (auto simp: publish_point_def)

lemma tick_Returned:
  assumes "control s" "controller_publisher K s = (Returned, s')"
  shows "\<exists>s5 s6. ros_calls s5 = ros_calls s \<and> check_limits s5 = (Returned, s6)
            \<and> publish_point s6 = (Returned, s')"
proof -
  from assms have chain: "seq robot_control_stmt
          (seq fuse (seq (ik_stmt K) (seq (\<lambda>s. (Returned, advance s))
             (seq blend (seq check_limits publish_point))))) s = (Returned, s')"
    by (simp add: controller_publisher_def)
  from seq_cases [OF chain] obtain s1 where
    1: "robot_control_stmt s = (Returned, s1)" and
    r1: "seq fuse (seq (ik_stmt K) (seq (\<lambda>s. (Returned, advance s))
             (seq blend (seq check_limits publish_point)))) s1 = (Returned, s')"
    by auto
  from seq_cases [OF r1] obtain s2 where
    2: "fuse s1 = (Returned, s2)" and
    r2: "seq (ik_stmt K) (seq (\<lambda>s. (Returned, advance s))
             (seq blend (seq check_limits publish_point))) s2 = (Returned, s')"
    by auto
  from seq_cases [OF r2] obtain s3 where
    3: "ik_stmt K s2 = (Returned, s3)" and
    r3: "seq (\<lambda>s. (Returned, advance s))
             (seq blend (seq check_limits publish_point)) s3 = (Returned, s')"
    by auto
  from seq_cases [OF r3] have
    r4: "seq blend (seq check_limits publish_point) (advance s3) = (Returned, s')"
    by auto
  from seq_cases [OF r4] obtain s5 where
    5: "blend (advance s3) = (Returned, s5)" and
    r5: "seq check_limits publish_point s5 = (Returned, s')"
    by auto
  from seq_cases [OF r5] obtain s6 where
    6: "check_limits s5 = (Returned, s6)" and 7: "publish_point s6 = (Returned, s')"
    by auto
  have "ros_calls s1 = ros_calls s" using robot_control_stmt_calls [of s] 1 by simp
  moreover have "ros_calls s2 = ros_calls s1" using fuse_calls [of s1] 2 by simp
  moreover have "ros_calls s3 = ros_calls s2" using ik_stmt_calls [of K s2] 3 by simp
  moreover have "ros_calls s5 = ros_calls (advance s3)" using blend_calls [of "advance s3"] 5 by simp
  ultimately have "ros_calls s5 = ros_calls s" by (simp add: advance_calls)
  with 6 7 show ?thesis by blast
qed

text \<open>
  The vector \<^verbatim>\<open>robot_offset\<close> has three entries when the node is constructed, and no callback
  changes its length: \<^verbatim>\<open>get_robot_control\<close> writes through \<^verbatim>\<open>.at()\<close> only and the other
  callbacks do not touch it.
\<close>

lemma get_robot_control_loop_length:
  "length (snd (get_robot_control_loop i t vals)) = length vals"
proof (induction i t vals rule: get_robot_control_loop.induct)
  case (1 i t vals)
  show ?case
  proof (cases "i < n_joints \<and> i < length vals")
    case True
    then have "get_robot_control_loop i t vals
        = get_robot_control_loop (i + 1) t (vals[i := t])"
      by (subst get_robot_control_loop.simps) simp
    moreover have "length (snd (get_robot_control_loop (i + 1) t (vals[i := t])))
        = length (vals[i := t])"
      using True by (intro "1.IH") auto
    ultimately show ?thesis by simp
  next
    case False
    then have "snd (get_robot_control_loop i t vals) = vals"
      by (subst get_robot_control_loop.simps) auto
    then show ?thesis by simp
  qed
qed

lemma robot_offset_length_initial: "length (robot_offset (initial r0)) = 3"
  by (simp add: initial_def)

lemma robot_offset_length_kept:
  "length (robot_offset (snd (controller_publisher K s))) = length (robot_offset s)
   \<and> robot_offset (snd (tcp_pos_publisher s)) = robot_offset s
   \<and> robot_offset (snd (joint_states_callback data s)) = robot_offset s
   \<and> robot_offset (snd (falcon_pos_callback msg s)) = robot_offset s"
proof -
  let ?sel = "\<lambda>s :: 'a RealController. length (robot_offset s)"
  have a: "?sel (snd (robot_control_stmt s)) = ?sel s" for s :: "'a RealController"
    using get_robot_control_loop_length
            [of 0 "real_of_int (count s) / real_of_int control_freq" "robot_offset s"]
    by (auto simp: robot_control_stmt_def get_robot_control_def split: prod.splits)
  have b: "?sel (snd (fuse s)) = ?sel s" for s :: "'a RealController"
    unfolding fuse_def by (intro seq_frame [where sel = ?sel]) (simp_all add: fuse_axis_def)
  have c: "?sel (snd (ik_stmt K s)) = ?sel s" for s :: "'a RealController"
    by (simp add: ik_stmt_def split: prod.splits)
  have d: "?sel (snd (Returned, advance s)) = ?sel s" for s :: "'a RealController"
    by (simp add: advance_def Let_def)
  have e: "?sel (snd (blend s)) = ?sel s" for s :: "'a RealController"
    by (simp add: blend_def split: prod.splits)
  have f: "?sel (snd (check_limits s)) = ?sel s" for s :: "'a RealController"
    by (simp add: check_limits_def split: sum.splits)
  have g: "?sel (snd (publish_point s)) = ?sel s" for s :: "'a RealController"
    by (simp add: publish_point_def)
  have "?sel (snd (seq robot_control_stmt
          (seq fuse (seq (ik_stmt K) (seq (\<lambda>s. (Returned, advance s))
             (seq blend (seq check_limits publish_point))))) s)) = ?sel s"
    by (intro seq_frame [where sel = ?sel] a b c d e f g)
  then have tick: "length (robot_offset (snd (controller_publisher K s))) = length (robot_offset s)"
    by (simp add: controller_publisher_def)
  have t: "robot_offset (snd (tcp_pos_publisher s)) = robot_offset s"
    by (simp add: tcp_pos_publisher_def)
  have j: "robot_offset (snd (joint_states_callback data s)) = robot_offset s"
    by (simp add: joint_states_callback_def split: prod.splits outcome.splits)
  have h: "robot_offset (snd (falcon_pos_callback msg s)) = robot_offset s"
    unfolding falcon_pos_callback_def
    by (intro seq_frame [where sel = robot_offset]) (simp_all add: set_human_offset_def)
  from tick t j h show ?thesis by blast
qed

text \<open>
  With fewer than seven entries in \<^verbatim>\<open>robot_offset\<close>, an active tick ends in
  \<^verbatim>\<open>get_robot_control\<close> with the exception: it does not reach the limit check and makes no
  call into rclcpp.
\<close>

lemma get_robot_control_loop_short:
  "length vals < n_joints \<Longrightarrow> i \<le> length vals \<Longrightarrow>
   fst (get_robot_control_loop i t vals) = Thrown out_of_range"
proof (induction i t vals rule: get_robot_control_loop.induct)
  case (1 i t vals)
  show ?case
  proof (cases "i < length vals")
    case True
    with "1.prems" have "get_robot_control_loop i t vals
        = get_robot_control_loop (i + 1) t (vals[i := t])"
      by (subst get_robot_control_loop.simps) simp
    moreover have "fst (get_robot_control_loop (i + 1) t (vals[i := t])) = Thrown out_of_range"
      using True "1.prems" by (intro "1.IH") auto
    ultimately show ?thesis by simp
  next
    case False
    with "1.prems" show ?thesis by (subst get_robot_control_loop.simps) simp
  qed
qed

lemma tick_throws_on_short_offset:
  "control s \<Longrightarrow> length (robot_offset s) < n_joints \<Longrightarrow>
   fst (controller_publisher K s) = Thrown out_of_range
   \<and> ros_calls (snd (controller_publisher K s)) = ros_calls s"
proof -
  assume c: "control s" and l: "length (robot_offset s) < n_joints"
  obtain out vals where
    g: "get_robot_control (real_of_int (count s) / real_of_int control_freq) (robot_offset s) = (out, vals)"
    by (cases "get_robot_control (real_of_int (count s) / real_of_int control_freq) (robot_offset s)")
  with get_robot_control_loop_short
         [OF l, of 0 "real_of_int (count s) / real_of_int control_freq"]
  have "out = Thrown out_of_range"
    by (simp add: get_robot_control_def)
  with g have "robot_control_stmt s = (Thrown out_of_range, s\<lparr>robot_offset := vals\<rparr>)"
    by (simp add: robot_control_stmt_def)
  with c show ?thesis by (simp add: controller_publisher_def seq_def)
qed


text \<open>
  Past that point, the branch of the failed limit check calls \<^verbatim>\<open>rclcpp::shutdown()\<close> and
  has no \<^verbatim>\<open>return\<close>: a tick that returns with a vector outside the limits in
  \<^verbatim>\<open>message_joint_vals\<close> has called \<^verbatim>\<open>shutdown\<close> and then \<^verbatim>\<open>publish\<close> on the message built from
  that vector.  What the client library does with that call is not part of the model.
\<close>

lemma tick_falls_through:
  "control s \<Longrightarrow> controller_publisher K s = (Returned, s') \<Longrightarrow>
   within_limits (map Fin (message_joint_vals s')) = Inr False \<Longrightarrow>
   ros_calls s' = ros_calls s @
     [shutdown,
      publish_trajectory \<lparr> joint_names = panda_joint_names,
                            points = [trajectory_point (message_joint_vals s')] \<rparr>]"
proof -
  assume c: "control s" and t: "controller_publisher K s = (Returned, s')"
    and v: "within_limits (map Fin (message_joint_vals s')) = Inr False"
  from tick_Returned [OF c t] obtain s5 s6 where
    calls: "ros_calls s5 = ros_calls s" and chk: "check_limits s5 = (Returned, s6)"
    and pub: "publish_point s6 = (Returned, s')"
    by blast
  note P = publish_point_eq [OF pub]
  note C = check_limits_cases [OF chk]
  from P C have m: "message_joint_vals s' = message_joint_vals s5" by simp
  with v C have "ros_calls s6 = ros_calls s5 @ [shutdown]" by auto
  with P calls C show ?thesis by simp
qed

section \<open>Properties of the torque loop\<close>

lemma updateJointStates_loop_frame:
  "k_gains_m (snd (updateJointStates_loop i s)) = k_gains_m s
   \<and> d_gains_m (snd (updateJointStates_loop i s)) = d_gains_m s
   \<and> dq_filtered_m (snd (updateJointStates_loop i s)) = dq_filtered_m s
   \<and> command_interfaces_m (snd (updateJointStates_loop i s)) = command_interfaces_m s
   \<and> state_interfaces_m (snd (updateJointStates_loop i s)) = state_interfaces_m s
   \<and> start_time_m (snd (updateJointStates_loop i s)) = start_time_m s
   \<and> length (q_m (snd (updateJointStates_loop i s))) = length (q_m s)
   \<and> length (dq_m (snd (updateJointStates_loop i s))) = length (dq_m s)"
proof (induction i s rule: updateJointStates_loop.induct)
  case (1 i s)
  let ?ok = "i < num_joints
      \<and> 2 * i < length (state_interfaces_m s) \<and> 2 * i + 1 < length (state_interfaces_m s)
      \<and> get_interface_name (state_interfaces_m s ! (2 * i)) = ''position''
      \<and> get_interface_name (state_interfaces_m s ! (2 * i + 1)) = ''velocity''"
  show ?case
  proof (cases ?ok)
    case True
    let ?s = "s\<lparr>q_m := (q_m s)[i := get_value (state_interfaces_m s ! (2 * i))],
                 dq_m := (dq_m s)[i := get_value (state_interfaces_m s ! (2 * i + 1))]\<rparr>"
    have step: "updateJointStates_loop i s = updateJointStates_loop (i + 1) ?s"
      using True by (subst updateJointStates_loop.simps) (simp add: Let_def)
    have "k_gains_m (snd (updateJointStates_loop (i + 1) ?s)) = k_gains_m ?s
   \<and> d_gains_m (snd (updateJointStates_loop (i + 1) ?s)) = d_gains_m ?s
   \<and> dq_filtered_m (snd (updateJointStates_loop (i + 1) ?s)) = dq_filtered_m ?s
   \<and> command_interfaces_m (snd (updateJointStates_loop (i + 1) ?s)) = command_interfaces_m ?s
   \<and> state_interfaces_m (snd (updateJointStates_loop (i + 1) ?s)) = state_interfaces_m ?s
   \<and> start_time_m (snd (updateJointStates_loop (i + 1) ?s)) = start_time_m ?s
   \<and> length (q_m (snd (updateJointStates_loop (i + 1) ?s))) = length (q_m ?s)
   \<and> length (dq_m (snd (updateJointStates_loop (i + 1) ?s))) = length (dq_m ?s)"
      using True by (intro "1.IH") auto
    then show ?thesis unfolding step by simp
  next
    case False
    then have "snd (updateJointStates_loop i s) = s"
      by (subst updateJointStates_loop.simps) (auto simp: Let_def)
    then show ?thesis by simp
  qed
qed

lemma set_value_loop_take:
  "i \<le> 7 \<Longrightarrow> length tau = 7 \<Longrightarrow> length (command_interfaces_m s) = 7 \<Longrightarrow>
   set_value_loop i tau s =
     (Returned, s\<lparr>command_interfaces_m := take i (command_interfaces_m s) @ drop i tau\<rparr>)"
proof (induction i tau s rule: set_value_loop.induct)
  case (1 i tau s)
  show ?case
  proof (cases "i < 7")
    case False
    with "1.prems" have "i = 7" by simp
    with "1.prems" show ?thesis by (subst set_value_loop.simps) simp
  next
    case True
    let ?s = "s\<lparr>command_interfaces_m := (command_interfaces_m s)[i := tau ! i]\<rparr>"
    have "set_value_loop i tau s = set_value_loop (i + 1) tau ?s"
      using True "1.prems" by (subst set_value_loop.simps) simp
    also have "\<dots> = (Returned, ?s\<lparr>command_interfaces_m :=
                         take (i + 1) (command_interfaces_m ?s) @ drop (i + 1) tau\<rparr>)"
      using True "1.prems" by (intro "1.IH") auto
    also have "take (i + 1) (command_interfaces_m ?s) = take i (command_interfaces_m s) @ [tau ! i]"
      using True "1.prems" by (simp add: take_Suc_conv_app_nth)
    also have "(take i (command_interfaces_m s) @ [tau ! i]) @ drop (i + 1) tau
                 = take i (command_interfaces_m s) @ drop i tau"
      using True "1.prems" by (simp add: Cons_nth_drop_Suc [symmetric])
    finally show ?thesis by simp
  qed
qed

lemma torque_stmt_tracking:
  assumes "length (q_m s) = 7" "length (dq_m s) = 7" "length (dq_filtered_m s) = 7"
    "length (k_gains_m s) = 7" "length (d_gains_m s) = 7" "length (command_interfaces_m s) = 7"
    "MG (now - start_time_m s) = (q_desired, False)" "length q_desired = 7"
  shows "torque_stmt MG now s =
    (Returned,
     s\<lparr>dq_filtered_m :=
         vplus (vscale (dsub (Fin 1) kAlpha) (dq_filtered_m s)) (vscale kAlpha (dq_m s)),
       command_interfaces_m :=
         vplus (cwiseProduct (k_gains_m s) (vminus q_desired (q_m s)))
               (cwiseProduct (d_gains_m s)
                  (vneg (vplus (vscale (dsub (Fin 1) kAlpha) (dq_filtered_m s))
                               (vscale kAlpha (dq_m s)))))\<rparr>)"
proof -
  let ?F = "vplus (vscale (dsub (Fin 1) kAlpha) (dq_filtered_m s)) (vscale kAlpha (dq_m s))"
  let ?tau = "vplus (cwiseProduct (k_gains_m s) (vminus q_desired (q_m s)))
               (cwiseProduct (d_gains_m s) (vneg ?F))"
  have len: "length ?tau = 7"
    using assms by (simp add: vplus_def vscale_def cwiseProduct_def vminus_def vneg_def)
  have "torque_stmt MG now s = set_value_loop 0 ?tau (s\<lparr>dq_filtered_m := ?F\<rparr>)"
    using assms(7) by (simp add: torque_stmt_def Let_def)
  also have "\<dots> = (Returned, (s\<lparr>dq_filtered_m := ?F\<rparr>)\<lparr>command_interfaces_m := ?tau\<rparr>)"
    using set_value_loop_take [of 0 ?tau "s\<lparr>dq_filtered_m := ?F\<rparr>"] len assms(6) by simp
  finally show ?thesis by simp
qed

lemma filtered_nth:
  "length f = 7 \<Longrightarrow> length v = 7 \<Longrightarrow> i < 7 \<Longrightarrow>
   vplus (vscale (dsub (Fin 1) kAlpha) f) (vscale kAlpha v) ! i
     = dadd (dmul (dsub (Fin 1) (Fin 0.99)) (f ! i)) (dmul (Fin 0.99) (v ! i))"
  by (simp add: vplus_def vscale_def kAlpha_def)

lemma torque_nth:
  "length k = 7 \<Longrightarrow> length d = 7 \<Longrightarrow> length qd = 7 \<Longrightarrow> length q = 7 \<Longrightarrow> length f = 7 \<Longrightarrow>
   i < 7 \<Longrightarrow>
   vplus (cwiseProduct k (vminus qd q)) (cwiseProduct d (vneg f)) ! i
     = dadd (dmul (k ! i) (dsub (qd ! i) (q ! i))) (dmul (d ! i) (dneg (f ! i)))"
  by (simp add: vplus_def cwiseProduct_def vminus_def vneg_def)

lemma updateJointStates_example:
  "updateJointStates (controller_example k v f) =
     (Returned, (controller_example k v f)
                  \<lparr>q_m := map Fin [0.1, -0.7, 0, -2.3, 0, 1.5, 0.8],
                   dq_m := map Fin [v, 0, 0, 0, 0, 0, 0]\<rparr>)"
  by (simp add: updateJointStates_def updateJointStates_loop.simps num_joints_def
        controller_example_def Let_def)

lemma update_at_rest:
  "update (generator_example (map Fin [0.1, -0.7, 0, -2.3, 0, 1.5, 0.8]) False) 5
          (controller_example k 0 0) =
     (Returned, (controller_example k 0 0)
                  \<lparr>q_m := map Fin [0.1, -0.7, 0, -2.3, 0, 1.5, 0.8],
                   dq_m := map Fin [0, 0, 0, 0, 0, 0, 0],
                   dq_filtered_m := map Fin [0, 0, 0, 0, 0, 0, 0],
                   command_interfaces_m :=
                     [dadd (dmul k (Fin 0)) (Fin 0), Fin 0, Fin 0, Fin 0, Fin 0, Fin 0, Fin 0]\<rparr>)"
  by (simp add: update_def seq_def updateJointStates_example)
     (simp add: torque_stmt_def set_value_loop.simps controller_example_def Let_def
        generator_example_def vplus_def vscale_def vminus_def vneg_def cwiseProduct_def
        kAlpha_def dsub_def)

text \<open>
  Claim C7, as the claim states it, fails for a gain that is not finite.  The gains are
  taken from the parameter arrays after a check of presence and length only; with the first
  proportional gain infinite, the desired positions equal to the measured ones and the
  filtered velocity zero, the torque written to the first joint is \<open>\<infinity> * 0\<close>, which is NaN
  and not 0.
\<close>

theorem torque_infinite_gain_counterexample:
  "fst (update (generator_example (map Fin [0.1, -0.7, 0, -2.3, 0, 1.5, 0.8]) False) 5
          (controller_example PInf 0 0)) = Returned
   \<and> q_m (snd (update (generator_example (map Fin [0.1, -0.7, 0, -2.3, 0, 1.5, 0.8]) False) 5
                  (controller_example PInf 0 0)))
       = map Fin [0.1, -0.7, 0, -2.3, 0, 1.5, 0.8]
   \<and> dq_filtered_m
        (snd (update (generator_example (map Fin [0.1, -0.7, 0, -2.3, 0, 1.5, 0.8]) False) 5
                (controller_example PInf 0 0)))
       = map Fin [0, 0, 0, 0, 0, 0, 0]
   \<and> command_interfaces_m
        (snd (update (generator_example (map Fin [0.1, -0.7, 0, -2.3, 0, 1.5, 0.8]) False) 5
                (controller_example PInf 0 0))) ! 0 = NaN
   \<and> command_interfaces_m
        (snd (update (generator_example (map Fin [0.1, -0.7, 0, -2.3, 0, 1.5, 0.8]) False) 5
                (controller_example PInf 0 0))) ! 0 \<noteq> Fin 0"
  unfolding update_at_rest by simp

text \<open>
  Claim C7, amended: on a call of \<^verbatim>\<open>update\<close> in which the joint states are read and the
  motion generator reports not finished, the filtered velocity of each joint becomes
  \<open>(1 - 0.99) * previous + 0.99 * measured velocity\<close>, and the value written to the command
  interface of joint \<open>i\<close> is
  \<open>k_gains[i] * (desired[i] - measured[i]) + d_gains[i] * (- filtered[i])\<close> with the updated
  filtered velocity, both in the arithmetic of doubles; so the torque of a joint is exactly
  0 when its desired position is its measured one, both finite, and its filtered velocity
  is 0, for any finite gains.
\<close>

theorem torque_law:
  "updateJointStates s = (Returned, s1)
   \<and> length (q_m s) = 7 \<and> length (dq_m s) = 7 \<and> length (dq_filtered_m s) = 7
   \<and> length (k_gains_m s) = 7 \<and> length (d_gains_m s) = 7
   \<and> length (command_interfaces_m s) = 7
   \<and> MG (now - start_time_m s) = (q_desired, False) \<and> length q_desired = 7
   \<and> i < 7 \<longrightarrow>
     fst (update MG now s) = Returned
   \<and> q_m (snd (update MG now s)) = q_m s1
   \<and> dq_m (snd (update MG now s)) = dq_m s1
   \<and> dq_filtered_m (snd (update MG now s)) ! i
        = dadd (dmul (dsub (Fin 1) (Fin 0.99)) (dq_filtered_m s ! i))
               (dmul (Fin 0.99) (dq_m s1 ! i))
   \<and> command_interfaces_m (snd (update MG now s)) ! i
        = dadd (dmul (k_gains_m s ! i) (dsub (q_desired ! i) (q_m s1 ! i)))
               (dmul (d_gains_m s ! i) (dneg (dq_filtered_m (snd (update MG now s)) ! i)))
   \<and> (dq_filtered_m s ! i = Fin f \<and> dq_m s1 ! i = Fin v \<longrightarrow>
        dq_filtered_m (snd (update MG now s)) ! i = Fin ((1 - 0.99) * f + 0.99 * v))
   \<and> (k_gains_m s ! i = Fin a \<and> d_gains_m s ! i = Fin b
        \<and> q_desired ! i = Fin p \<and> q_m s1 ! i = Fin m
        \<and> dq_filtered_m (snd (update MG now s)) ! i = Fin g \<longrightarrow>
        command_interfaces_m (snd (update MG now s)) ! i = Fin (a * (p - m) + b * (- g)))
   \<and> (k_gains_m s ! i = Fin a \<and> d_gains_m s ! i = Fin b
        \<and> q_desired ! i = Fin p \<and> q_m s1 ! i = Fin p
        \<and> dq_filtered_m (snd (update MG now s)) ! i = Fin 0 \<longrightarrow>
        command_interfaces_m (snd (update MG now s)) ! i = Fin 0)"
proof (intro impI, elim conjE)
  assume ujs: "updateJointStates s = (Returned, s1)"
    and len: "length (q_m s) = 7" "length (dq_m s) = 7" "length (dq_filtered_m s) = 7"
      "length (k_gains_m s) = 7" "length (d_gains_m s) = 7" "length (command_interfaces_m s) = 7"
    and mg: "MG (now - start_time_m s) = (q_desired, False)" and lqd: "length q_desired = 7"
    and i: "i < 7"
  have s1: "snd (updateJointStates_loop 0 s) = s1"
    using ujs by (simp add: updateJointStates_def)
  note fr = updateJointStates_loop_frame [of 0 s, unfolded s1]
  let ?F = "vplus (vscale (dsub (Fin 1) kAlpha) (dq_filtered_m s1)) (vscale kAlpha (dq_m s1))"
  let ?tau = "vplus (cwiseProduct (k_gains_m s1) (vminus q_desired (q_m s1)))
                (cwiseProduct (d_gains_m s1) (vneg ?F))"
  let ?U = "update MG now s"
  have "update MG now s = torque_stmt MG now s1"
    unfolding update_def using ujs by (rule seq_Returned)
  also have "\<dots> = (Returned, s1\<lparr>dq_filtered_m := ?F, command_interfaces_m := ?tau\<rparr>)"
    using fr len mg lqd by (intro torque_stmt_tracking) simp_all
  finally have upd: "?U = (Returned, s1\<lparr>dq_filtered_m := ?F, command_interfaces_m := ?tau\<rparr>)" .
  have lF: "length ?F = 7"
    using fr len by (simp add: vplus_def vscale_def)
  have F: "dq_filtered_m (snd ?U) ! i
        = dadd (dmul (dsub (Fin 1) (Fin 0.99)) (dq_filtered_m s ! i))
               (dmul (Fin 0.99) (dq_m s1 ! i))"
    using fr len i by (simp add: upd filtered_nth)
  have T: "command_interfaces_m (snd ?U) ! i
        = dadd (dmul (k_gains_m s ! i) (dsub (q_desired ! i) (q_m s1 ! i)))
               (dmul (d_gains_m s ! i) (dneg (dq_filtered_m (snd ?U) ! i)))"
    using fr len lqd lF i by (simp add: upd torque_nth)
  have Ff: "dq_filtered_m s ! i = Fin f \<and> dq_m s1 ! i = Fin v \<longrightarrow>
        dq_filtered_m (snd ?U) ! i = Fin ((1 - 0.99) * f + 0.99 * v)"
    unfolding F by (simp add: dsub_def)
  have Tf: "k_gains_m s ! i = Fin a \<and> d_gains_m s ! i = Fin b
        \<and> q_desired ! i = Fin p \<and> q_m s1 ! i = Fin m
        \<and> dq_filtered_m (snd ?U) ! i = Fin g \<longrightarrow>
        command_interfaces_m (snd ?U) ! i = Fin (a * (p - m) + b * (- g))"
    using T by (simp add: dsub_def)
  have Z: "k_gains_m s ! i = Fin a \<and> d_gains_m s ! i = Fin b
        \<and> q_desired ! i = Fin p \<and> q_m s1 ! i = Fin p
        \<and> dq_filtered_m (snd ?U) ! i = Fin 0 \<longrightarrow>
        command_interfaces_m (snd ?U) ! i = Fin 0"
    using T by (simp add: dsub_def)
  have R: "fst ?U = Returned \<and> q_m (snd ?U) = q_m s1 \<and> dq_m (snd ?U) = dq_m s1"
    by (simp add: upd)
  from R F T Ff Tf Z show
    "fst (update MG now s) = Returned
   \<and> q_m (snd (update MG now s)) = q_m s1
   \<and> dq_m (snd (update MG now s)) = dq_m s1
   \<and> dq_filtered_m (snd (update MG now s)) ! i
        = dadd (dmul (dsub (Fin 1) (Fin 0.99)) (dq_filtered_m s ! i))
               (dmul (Fin 0.99) (dq_m s1 ! i))
   \<and> command_interfaces_m (snd (update MG now s)) ! i
        = dadd (dmul (k_gains_m s ! i) (dsub (q_desired ! i) (q_m s1 ! i)))
               (dmul (d_gains_m s ! i) (dneg (dq_filtered_m (snd (update MG now s)) ! i)))
   \<and> (dq_filtered_m s ! i = Fin f \<and> dq_m s1 ! i = Fin v \<longrightarrow>
        dq_filtered_m (snd (update MG now s)) ! i = Fin ((1 - 0.99) * f + 0.99 * v))
   \<and> (k_gains_m s ! i = Fin a \<and> d_gains_m s ! i = Fin b
        \<and> q_desired ! i = Fin p \<and> q_m s1 ! i = Fin m
        \<and> dq_filtered_m (snd (update MG now s)) ! i = Fin g \<longrightarrow>
        command_interfaces_m (snd (update MG now s)) ! i = Fin (a * (p - m) + b * (- g)))
   \<and> (k_gains_m s ! i = Fin a \<and> d_gains_m s ! i = Fin b
        \<and> q_desired ! i = Fin p \<and> q_m s1 ! i = Fin p
        \<and> dq_filtered_m (snd (update MG now s)) ! i = Fin 0 \<longrightarrow>
        command_interfaces_m (snd (update MG now s)) ! i = Fin 0)"
    by blast
qed

theorem torque_law_witness:
  "updateJointStates (controller_example (Fin 600) 0.5 0.2)
     = (Returned, (controller_example (Fin 600) 0.5 0.2)
                    \<lparr>q_m := map Fin [0.1, -0.7, 0, -2.3, 0, 1.5, 0.8],
                     dq_m := map Fin [0.5, 0, 0, 0, 0, 0, 0]\<rparr>)
   \<and> length (q_m (controller_example (Fin 600) 0.5 0.2)) = 7
   \<and> length (dq_m (controller_example (Fin 600) 0.5 0.2)) = 7
   \<and> length (dq_filtered_m (controller_example (Fin 600) 0.5 0.2)) = 7
   \<and> length (k_gains_m (controller_example (Fin 600) 0.5 0.2)) = 7
   \<and> length (d_gains_m (controller_example (Fin 600) 0.5 0.2)) = 7
   \<and> length (command_interfaces_m (controller_example (Fin 600) 0.5 0.2)) = 7
   \<and> generator_example (map Fin [0.2, -0.7, 0, -2.3, 0, 1.5, 0.8]) False
        (5 - start_time_m (controller_example (Fin 600) 0.5 0.2))
       = (map Fin [0.2, -0.7, 0, -2.3, 0, 1.5, 0.8], False)
   \<and> (0 :: nat) < 7
   \<and> dq_filtered_m (snd (update (generator_example (map Fin [0.2, -0.7, 0, -2.3, 0, 1.5, 0.8]) False) 5
                              (controller_example (Fin 600) 0.5 0.2))) ! 0 = Fin 0.497
   \<and> command_interfaces_m (snd (update (generator_example (map Fin [0.2, -0.7, 0, -2.3, 0, 1.5, 0.8]) False) 5
                              (controller_example (Fin 600) 0.5 0.2))) ! 0 = Fin 45.09
   \<and> k_gains_m (controller_example (Fin 600) 0 0) ! 0 = Fin 600
   \<and> d_gains_m (controller_example (Fin 600) 0 0) ! 0 = Fin 30
   \<and> map Fin [0.1, -0.7, 0, -2.3, 0, 1.5, 0.8] ! 0 = Fin 0.1
   \<and> dq_filtered_m (snd (update (generator_example (map Fin [0.1, -0.7, 0, -2.3, 0, 1.5, 0.8]) False) 5
                              (controller_example (Fin 600) 0 0))) ! 0 = Fin 0
   \<and> command_interfaces_m (snd (update (generator_example (map Fin [0.1, -0.7, 0, -2.3, 0, 1.5, 0.8]) False) 5
                              (controller_example (Fin 600) 0 0))) ! 0 = Fin 0"
proof -
  let ?m = "map Fin [0.1, -0.7, 0, -2.3, 0, 1.5, 0.8]"
  let ?d = "map Fin [0.2, -0.7, 0, -2.3, 0, 1.5, 0.8]"
  let ?sB = "controller_example (Fin 600) 0.5 0.2"
  let ?sA = "controller_example (Fin 600) 0 0"
  have lenB: "length (q_m ?sB) = 7 \<and> length (dq_m ?sB) = 7 \<and> length (dq_filtered_m ?sB) = 7
      \<and> length (k_gains_m ?sB) = 7 \<and> length (d_gains_m ?sB) = 7
      \<and> length (command_interfaces_m ?sB) = 7"
    and lenA: "length (q_m ?sA) = 7 \<and> length (dq_m ?sA) = 7 \<and> length (dq_filtered_m ?sA) = 7
      \<and> length (k_gains_m ?sA) = 7 \<and> length (d_gains_m ?sA) = 7
      \<and> length (command_interfaces_m ?sA) = 7"
    and gains: "k_gains_m ?sA ! 0 = Fin 600 \<and> d_gains_m ?sA ! 0 = Fin 30"
    by (simp_all add: controller_example_def)
  note B = torque_law [where s = ?sB
              and ?s1.0 = "?sB\<lparr>q_m := ?m, dq_m := map Fin [0.5, 0, 0, 0, 0, 0, 0]\<rparr>"
              and MG = "generator_example ?d False" and now = 5 and q_desired = ?d and i = 0
              and f = "0.2" and v = "0.5" and a = 600 and b = 30 and p = "0.2" and m = "0.1"
              and g = "0.497"]
  note A = torque_law [where s = ?sA
              and ?s1.0 = "?sA\<lparr>q_m := ?m, dq_m := map Fin [0, 0, 0, 0, 0, 0, 0]\<rparr>"
              and MG = "generator_example ?m False" and now = 5 and q_desired = ?m and i = 0
              and f = 0 and v = 0 and a = 600 and b = 30 and p = "0.1" and m = "0.1" and g = 0]
  have genB: "generator_example ?d False (5 - start_time_m ?sB) = (?d, False)"
    and genA: "generator_example ?m False (5 - start_time_m ?sA) = (?m, False)"
    by (simp_all only: generator_example_def)
  have zero: "(0 :: nat) < 7" and lqdB: "length ?d = 7" and lqdA: "length ?m = 7"
    by simp_all
  have redB: "updateJointStates ?sB
      = (Returned, ?sB\<lparr>q_m := ?m, dq_m := map Fin [0.5, 0, 0, 0, 0, 0, 0]\<rparr>)"
    and redA: "updateJointStates ?sA
      = (Returned, ?sA\<lparr>q_m := ?m, dq_m := map Fin [0, 0, 0, 0, 0, 0, 0]\<rparr>)"
    by (rule updateJointStates_example)+
  from B redB lenB genB lqdB zero have CB:
    "dq_filtered_m (snd (update (generator_example ?d False) 5 ?sB)) ! 0
        = dadd (dmul (dsub (Fin 1) (Fin 0.99)) (dq_filtered_m ?sB ! 0))
               (dmul (Fin 0.99) (dq_m (?sB\<lparr>q_m := ?m, dq_m := map Fin [0.5, 0, 0, 0, 0, 0, 0]\<rparr>) ! 0))
     \<and> command_interfaces_m (snd (update (generator_example ?d False) 5 ?sB)) ! 0
        = dadd (dmul (k_gains_m ?sB ! 0)
                  (dsub (?d ! 0) (q_m (?sB\<lparr>q_m := ?m, dq_m := map Fin [0.5, 0, 0, 0, 0, 0, 0]\<rparr>) ! 0)))
               (dmul (d_gains_m ?sB ! 0)
                  (dneg (dq_filtered_m (snd (update (generator_example ?d False) 5 ?sB)) ! 0)))"
    by blast
  have fB: "dq_filtered_m (snd (update (generator_example ?d False) 5 ?sB)) ! 0 = Fin 0.497"
    unfolding CB [THEN conjunct1] by (simp add: controller_example_def dsub_def)
  have tB: "command_interfaces_m (snd (update (generator_example ?d False) 5 ?sB)) ! 0 = Fin 45.09"
    unfolding CB [THEN conjunct2] fB by (simp add: controller_example_def dsub_def)
  have posA: "?m ! 0 = Fin 0.1"
    and measA: "q_m (?sA\<lparr>q_m := ?m, dq_m := map Fin [0, 0, 0, 0, 0, 0, 0]\<rparr>) ! 0 = Fin 0.1"
    and prevA: "dq_filtered_m ?sA ! 0 = Fin 0"
    and velA: "dq_m (?sA\<lparr>q_m := ?m, dq_m := map Fin [0, 0, 0, 0, 0, 0, 0]\<rparr>) ! 0 = Fin 0"
    by (simp_all add: controller_example_def)
  from A redA lenA genA lqdA zero prevA velA have
    "dq_filtered_m (snd (update (generator_example ?m False) 5 ?sA)) ! 0
       = Fin ((1 - 0.99) * 0 + 0.99 * 0)"
    by blast
  then have fA: "dq_filtered_m (snd (update (generator_example ?m False) 5 ?sA)) ! 0 = Fin 0"
    by simp
  from A redA lenA genA lqdA zero gains posA measA fA have tA:
    "command_interfaces_m (snd (update (generator_example ?m False) 5 ?sA)) ! 0 = Fin 0"
    by blast
  from redB lenB genB zero fB tB gains posA fA tA show ?thesis
    by blast
qed

text \<open>
  Claim C8: on a call of \<^verbatim>\<open>update\<close> in which the joint states are read and the motion
  generator reports finished, every command interface is written 0, whatever the gains,
  the filtered velocity and the measured state are; nothing else changes besides the
  measured state.
\<close>

theorem zero_torque_when_finished:
  "updateJointStates s = (Returned, s1) \<and> snd (MG (now - start_time_m s)) \<longrightarrow>
     update MG now s
       = (Returned,
          s1\<lparr>command_interfaces_m := replicate (length (command_interfaces_m s)) (Fin 0)\<rparr>)
   \<and> (\<forall>c \<in> set (command_interfaces_m (snd (update MG now s))). c = Fin 0)
   \<and> length (command_interfaces_m (snd (update MG now s))) = length (command_interfaces_m s)"
proof (intro impI, elim conjE)
  assume ujs: "updateJointStates s = (Returned, s1)"
    and fin: "snd (MG (now - start_time_m s))"
  have s1: "snd (updateJointStates_loop 0 s) = s1"
    using ujs by (simp add: updateJointStates_def)
  note fr = updateJointStates_loop_frame [of 0 s, unfolded s1]
  have "update MG now s = torque_stmt MG now s1"
    unfolding update_def using ujs by (rule seq_Returned)
  also have "\<dots> = (Returned,
       s1\<lparr>command_interfaces_m := replicate (length (command_interfaces_m s)) (Fin 0)\<rparr>)"
    using fr fin by (simp add: torque_stmt_def Let_def map_replicate_const)
  finally show "update MG now s
       = (Returned,
          s1\<lparr>command_interfaces_m := replicate (length (command_interfaces_m s)) (Fin 0)\<rparr>)
   \<and> (\<forall>c \<in> set (command_interfaces_m (snd (update MG now s))). c = Fin 0)
   \<and> length (command_interfaces_m (snd (update MG now s))) = length (command_interfaces_m s)"
    by simp
qed

theorem zero_torque_when_finished_witness:
  "updateJointStates (controller_example PInf 0.5 0.2)
     = (Returned, (controller_example PInf 0.5 0.2)
                    \<lparr>q_m := map Fin [0.1, -0.7, 0, -2.3, 0, 1.5, 0.8],
                     dq_m := map Fin [0.5, 0, 0, 0, 0, 0, 0]\<rparr>)
   \<and> snd (generator_example (map Fin [0, -0.785, 0, -2.356, 0, 1.571, 0.785]) True
             (5 - start_time_m (controller_example PInf 0.5 0.2)))
   \<and> command_interfaces_m (controller_example PInf 0.5 0.2) = map Fin [1, 2, 3, 4, 5, 6, 7]
   \<and> fst (update (generator_example (map Fin [0, -0.785, 0, -2.356, 0, 1.571, 0.785]) True) 5
             (controller_example PInf 0.5 0.2)) = Returned
   \<and> command_interfaces_m
        (snd (update (generator_example (map Fin [0, -0.785, 0, -2.356, 0, 1.571, 0.785]) True) 5
                (controller_example PInf 0.5 0.2))) = map Fin [0, 0, 0, 0, 0, 0, 0]"
  using zero_torque_when_finished [of "controller_example PInf 0.5 0.2"
          "(controller_example PInf 0.5 0.2)
             \<lparr>q_m := map Fin [0.1, -0.7, 0, -2.3, 0, 1.5, 0.8],
              dq_m := map Fin [0.5, 0, 0, 0, 0, 0, 0]\<rparr>"
          "generator_example (map Fin [0, -0.785, 0, -2.356, 0, 1.571, 0.785]) True" 5]
  by (simp add: updateJointStates_example generator_example_def)
     (simp add: controller_example_def eval_nat_numeral)


end
